theory Spec2Isabelle
  imports Complex_Main
begin

section \<open>Errors and tensors\<close>

text \<open>
  The Python exceptions the modelled code can raise. Every function that can raise
  returns \<open>error + 'a\<close>, with \<open>Inl\<close> for the exception.
\<close>

datatype error =
    ValueError
  | AssertionError
  | ZeroDivisionError
  | RuntimeError
  | UnboundLocalError
  | AttributeError
  | TypeError
  | OtherError string

definition and_then :: "error + 'a \<Rightarrow> ('a \<Rightarrow> error + 'b) \<Rightarrow> error + 'b" where
  "and_then r f = (case r of Inl e \<Rightarrow> Inl e | Inr v \<Rightarrow> f v)"

text \<open>
  A tensor carries what the code reads of it: \<open>x.size()\<close>, \<open>x.is_cuda\<close> and its
  elements. The elements of a tensor of rank 1, 2 and 3 are nested lists
  (\<open>real list\<close>, \<open>real list list\<close>, \<open>real list list list\<close>), outermost dimension
  first. Floating-point numbers are idealised as reals.
\<close>

record 'd tensor =
  tsize :: "nat list"
  is_cuda :: bool
  data :: 'd

type_synonym tensor3 = "real list list list tensor"

text \<open>A rank-3 tensor is well formed when its elements fill its size.\<close>

definition wf3 :: "tensor3 \<Rightarrow> bool" where
  "wf3 x = (case tsize x of
      [b, t, f] \<Rightarrow> length (data x) = b \<and>
        list_all (\<lambda>m. length m = t \<and> list_all (\<lambda>r. length r = f) m) (data x)
    | _ \<Rightarrow> False)"

section \<open>transformer.py: positional_embedding\<close>

text \<open>\<open>torch.arange(0, n).float()\<close>.\<close>

definition arange :: "nat \<Rightarrow> real list" where
  "arange n = map real [0..<n]"

text \<open>
  Lines 18 to 20: \<open>math.log(float(max_timescale) / float(min_timescale)) /
  (float(num_timescales) - 1.)\<close>. Python evaluates the quotient of the timescales
  (ZeroDivisionError for a zero divisor), then \<open>math.log\<close> (ValueError outside its
  domain), then the outer division (ZeroDivisionError for a zero divisor).
\<close>

definition log_timescale_increment :: "real \<Rightarrow> real \<Rightarrow> nat \<Rightarrow> error + real" where
  "log_timescale_increment min_timescale max_timescale num_timescales =
     (if min_timescale = 0 then Inl ZeroDivisionError
      else if max_timescale / min_timescale \<le> 0 then Inl ValueError
      else if real num_timescales - 1 = 0 then Inl ZeroDivisionError
      else Inr (ln (max_timescale / min_timescale) / (real num_timescales - 1)))"

text \<open>
  Lines 22 and 27: \<open>inv_timescales = arange(0, num_timescales).float()\<close>, then
  \<open>inv_timescales.mul_(-log_timescale_increment).exp_().mul_(min_timescale)\<close>.
\<close>

definition inv_timescales :: "real \<Rightarrow> real \<Rightarrow> nat \<Rightarrow> error + real list" where
  "inv_timescales min_timescale max_timescale num_timescales =
     and_then (log_timescale_increment min_timescale max_timescale num_timescales)
       (\<lambda>inc. Inr (map (\<lambda>v. exp (v * (- inc)) * min_timescale) (arange num_timescales)))"

text \<open>
  \<open>position.unsqueeze(1).expand(length, num_timescales)\<close>: every position becomes a
  row of \<open>num_timescales\<close> copies of it.
\<close>

definition unsqueeze1_expand :: "nat \<Rightarrow> real list \<Rightarrow> real list list" where
  "unsqueeze1_expand n v = map (replicate n) v"

text \<open>
  \<open>inv_timescales.unsqueeze(0).expand(length, num_timescales)\<close>: \<open>length\<close> copies of
  the row.
\<close>

definition unsqueeze0_expand :: "nat \<Rightarrow> 'a \<Rightarrow> 'a list" where
  "unsqueeze0_expand n v = replicate n v"

text \<open>The elementwise product of two matrices of one shape.\<close>

definition mul2 :: "real list list \<Rightarrow> real list list \<Rightarrow> real list list" where
  "mul2 a b = map2 (\<lambda>r s. map2 (*) r s) a b"

text \<open>\<open>torch.cat([a, b], 1)\<close> of two matrices: row by row.\<close>

definition cat1 :: "real list list \<Rightarrow> real list list \<Rightarrow> real list list" where
  "cat1 a b = map2 (@) a b"

text \<open>
  The function, lines 14 to 33. Unpacking \<open>x.size()\<close> into three names raises
  ValueError for a tensor of another rank; the assertion is checked next, before any
  computation. The result is on the device of \<open>x\<close> (lines 23 to 25).
\<close>

definition positional_embedding :: "'d tensor \<Rightarrow> real \<Rightarrow> real \<Rightarrow> error + tensor3" where
  "positional_embedding x min_timescale max_timescale =
     (case tsize x of
        [batch, len, channels] \<Rightarrow>
          if channels mod 2 \<noteq> 0 then Inl AssertionError
          else
            (let num_timescales = channels div 2;
                 position = arange len
             in and_then (inv_timescales min_timescale max_timescale num_timescales)
                  (\<lambda>inv_ts.
                     let scaled_time = mul2 (unsqueeze1_expand num_timescales position)
                                            (unsqueeze0_expand len inv_ts);
                         signal = cat1 (map (map sin) scaled_time) (map (map cos) scaled_time)
                     in Inr \<lparr>tsize = [batch, len, channels], is_cuda = is_cuda x,
                             data = unsqueeze0_expand batch signal\<rparr>))
      | _ \<Rightarrow> Inl ValueError)"

section \<open>normalization.py: LayerNorm1d\<close>

text \<open>
  The module's attributes. \<open>weight\<close> and \<open>bias\<close> are \<open>None\<close> when \<open>affine\<close> is
  false (\<open>register_parameter('weight', None)\<close>).
\<close>

record LayerNorm1d =
  ln_eps :: real
  ln_num_features :: nat
  ln_affine :: bool
  ln_weight :: "real list option"
  ln_bias :: "real list option"

text \<open>\<open>__init__\<close> followed by \<open>reset_parameters\<close>: weight filled with 1, bias with 0.\<close>

definition LayerNorm1d_init :: "nat \<Rightarrow> real \<Rightarrow> bool \<Rightarrow> LayerNorm1d" where
  "LayerNorm1d_init num_features eps affine =
     \<lparr>ln_eps = eps, ln_num_features = num_features, ln_affine = affine,
      ln_weight = (if affine then Some (replicate num_features 1) else None),
      ln_bias = (if affine then Some (replicate num_features 0) else None)\<rparr>"

text \<open>\<open>t.mean(2)\<close> of a rank-3 tensor: the mean of every innermost row.\<close>

definition mean_dim2 :: "real list list list \<Rightarrow> real list list" where
  "mean_dim2 d = map (map (\<lambda>r. sum_list r / real (length r))) d"

text \<open>\<open>.view(b, t, 1)\<close> of a \<open>b\<close> by \<open>t\<close> matrix.\<close>

definition view_b_t_1 :: "real list list \<Rightarrow> real list list list" where
  "view_b_t_1 m = map (map (\<lambda>v. [v])) m"

text \<open>
  \<open>.expand_as(inputs)\<close> of a tensor of size \<open>(b, t, 1)\<close>, for \<open>inputs\<close> of size
  \<open>(b, t, f)\<close>: the single element of every row, \<open>f\<close> times.
\<close>

definition expand_as_last :: "nat \<Rightarrow> real list list list \<Rightarrow> real list list list" where
  "expand_as_last f d = map (map (\<lambda>r. concat (map (replicate f) r))) d"

text \<open>Elementwise operations on rank-3 data of one shape.\<close>

definition zip3 :: "(real \<Rightarrow> real \<Rightarrow> real) \<Rightarrow> real list list list \<Rightarrow> real list list list
    \<Rightarrow> real list list list" where
  "zip3 g a b = map2 (\<lambda>m n. map2 (\<lambda>r s. map2 g r s) m n) a b"

text \<open>
  \<open>self.weight.view(1, 1, -1).expand_as(output)\<close>: a vector of \<open>f\<close> elements is
  repeated at every position; a vector of one element is repeated along the features
  as well; any other length cannot be expanded (RuntimeError).
\<close>

definition view_1_1_expand_as :: "nat \<Rightarrow> nat \<Rightarrow> nat \<Rightarrow> real list \<Rightarrow> error + real list list list" where
  "view_1_1_expand_as b t f w =
     (if length w = f then Inr (replicate b (replicate t w))
      else if length w = 1 then Inr (replicate b (replicate t (replicate f (hd w))))
      else Inl RuntimeError)"

text \<open>
  \<open>forward\<close>, lines 27 to 38. Unpacking \<open>inputs.size()\<close> into three names raises
  ValueError for another rank. With \<open>affine\<close> set and a parameter that is \<open>None\<close>,
  \<open>.view\<close> raises AttributeError.
\<close>

definition LayerNorm1d_forward :: "LayerNorm1d \<Rightarrow> tensor3 \<Rightarrow> error + tensor3" where
  "LayerNorm1d_forward self inputs =
     (case tsize inputs of
        [b, t, f] \<Rightarrow>
          (let mean = expand_as_last f (view_b_t_1 (mean_dim2 (data inputs)));
               input_centered = zip3 (-) (data inputs) mean;
               std = map (map sqrt)
                       (map (map (\<lambda>v. v + ln_eps self))
                          (mean_dim2 (map (map (map (\<lambda>v. v ^ 2))) input_centered)));
               output = zip3 (/) input_centered (expand_as_last f (view_b_t_1 std))
           in if ln_affine self then
                (case (ln_weight self, ln_bias self) of
                   (Some weight, Some bias) \<Rightarrow>
                     and_then (view_1_1_expand_as b t f weight) (\<lambda>w.
                     and_then (view_1_1_expand_as b t f bias) (\<lambda>b'.
                       Inr (inputs\<lparr>data := zip3 (+) (zip3 (*) output w) b'\<rparr>)))
                 | _ \<Rightarrow> Inl AttributeError)
              else Inr (inputs\<lparr>data := output\<rparr>))
      | _ \<Rightarrow> Inl ValueError)"

text \<open>
  Layer normalisation in the claim's words, for one row \<open>r\<close> of features: the mean, the
  biased variance (divided by the number of features) and the normalised element \<open>k\<close>.
\<close>

definition row_mean :: "real list \<Rightarrow> real" where
  "row_mean r = sum_list r / real (length r)"

definition biased_variance :: "real list \<Rightarrow> real" where
  "biased_variance r = sum_list (map (\<lambda>x. (x - row_mean r) ^ 2) r) / real (length r)"

definition normalized :: "real \<Rightarrow> real list \<Rightarrow> nat \<Rightarrow> real" where
  "normalized eps r k = (r ! k - row_mean r) / sqrt (biased_variance r + eps)"

text \<open>The parameters of an affine module fit \<open>f\<close> features.\<close>

definition params_fit :: "LayerNorm1d \<Rightarrow> nat \<Rightarrow> bool" where
  "params_fit self f =
     (if ln_affine self then
        (case (ln_weight self, ln_bias self) of
           (Some w, Some b) \<Rightarrow> length w = f \<and> length b = f
         | _ \<Rightarrow> False)
      else True)"

section \<open>transformer.py: the blocks\<close>

text \<open>A padding mask is a tensor of booleans; token inputs are a tensor of integers.\<close>

type_synonym mask = "bool list list tensor"
type_synonym tokens = "int list list tensor"

text \<open>
  Modelled from the spec: \<open>modules/attention.py\<close> (class \<open>MultiHeadAttention\<close>) is not
  among the sources. The module keeps its constructor arguments and the two masks;
  \<open>set_mask_q\<close> and \<open>set_mask_k\<close> store the mask they are given. What its forward
  pass computes is a parameter of the model (\<open>attention_forward\<close> below).
\<close>

record MultiHeadAttention =
  mha_input_size :: nat
  mha_output_size :: nat
  mha_num_heads :: nat
  mha_dropout :: real
  mha_causal :: bool
  mha_weight_norm :: bool
  mha_mask_q :: "mask option"
  mha_mask_k :: "mask option"

definition MultiHeadAttention_init ::
    "nat \<Rightarrow> nat \<Rightarrow> nat \<Rightarrow> real \<Rightarrow> bool \<Rightarrow> bool \<Rightarrow> MultiHeadAttention" where
  "MultiHeadAttention_init input_size output_size num_heads dropout causal weight_norm =
     \<lparr>mha_input_size = input_size, mha_output_size = output_size, mha_num_heads = num_heads,
      mha_dropout = dropout, mha_causal = causal, mha_weight_norm = weight_norm,
      mha_mask_q = None, mha_mask_k = None\<rparr>"

definition set_mask_q :: "MultiHeadAttention \<Rightarrow> mask option \<Rightarrow> MultiHeadAttention" where
  "set_mask_q self m = self\<lparr>mha_mask_q := m\<rparr>"

definition set_mask_k :: "MultiHeadAttention \<Rightarrow> mask option \<Rightarrow> MultiHeadAttention" where
  "set_mask_k self m = self\<lparr>mha_mask_k := m\<rparr>"

text \<open>
  The feed-forward stack \<open>nn.Sequential(Linear, ReLU, Dropout, Linear)\<close>, by its
  constructor arguments; \<open>wn_func\<close> wraps the linear layers when \<open>weight_norm\<close> is set.
\<close>

record FeedForward =
  fc_hidden_size :: nat
  fc_inner_linear :: nat
  fc_weight_norm :: bool
  fc_dropout :: real

text \<open>
  Parameters live in a store, so that two modules can hold one parameter: a module
  attribute is a reference into the store.
\<close>

type_synonym ref = nat

record store =
  next_ref :: ref
  params :: "ref \<rightharpoonup> real list list"

definition alloc :: "store \<Rightarrow> real list list \<Rightarrow> ref \<times> store" where
  "alloc st v = (next_ref st, st\<lparr>next_ref := Suc (next_ref st), params := (params st)(next_ref st \<mapsto> v)\<rparr>)"

definition read_param :: "store \<Rightarrow> ref \<Rightarrow> real list list option" where
  "read_param st r = params st r"

text \<open>An update of the parameter behind a reference, as an optimiser step does in place.\<close>

definition write_param :: "store \<Rightarrow> ref \<Rightarrow> real list list \<Rightarrow> store" where
  "write_param st r v = st\<lparr>params := (params st)(r \<mapsto> v)\<rparr>"

text \<open>
  \<open>nn.Embedding(num_embeddings, embedding_dim, padding_idx)\<close> and
  \<open>nn.Linear(in_features, out_features)\<close>: each allocates its parameters. The initial
  values are random; they are a parameter \<open>init\<close> of the model, from the shape.
\<close>

record Embedding =
  emb_num_embeddings :: nat
  emb_embedding_dim :: nat
  emb_padding_idx :: int
  emb_weight :: ref

record Linear =
  lin_in_features :: nat
  lin_out_features :: nat
  lin_weight :: ref
  lin_bias :: ref

definition nn_Embedding ::
    "(nat \<Rightarrow> nat \<Rightarrow> real list list) \<Rightarrow> store \<Rightarrow> nat \<Rightarrow> nat \<Rightarrow> int \<Rightarrow> Embedding \<times> store" where
  "nn_Embedding init st num_embeddings embedding_dim padding_idx =
     (let (w, st1) = alloc st (init num_embeddings embedding_dim)
      in (\<lparr>emb_num_embeddings = num_embeddings, emb_embedding_dim = embedding_dim,
           emb_padding_idx = padding_idx, emb_weight = w\<rparr>, st1))"

definition nn_Linear ::
    "(nat \<Rightarrow> nat \<Rightarrow> real list list) \<Rightarrow> store \<Rightarrow> nat \<Rightarrow> nat \<Rightarrow> Linear \<times> store" where
  "nn_Linear init st in_features out_features =
     (let (w, st1) = alloc st (init out_features in_features);
          (b, st2) = alloc st1 (init 1 out_features)
      in (\<lparr>lin_in_features = in_features, lin_out_features = out_features,
           lin_weight = w, lin_bias = b\<rparr>, st2))"

text \<open>
  The operations of the framework that the blocks call and whose code is not in the
  repository: the attention forward pass (output and attention scores), dropout (its
  random sample is part of the parameter), the feed-forward stack, the embedding
  lookup, and the in-place addition \<open>add_\<close> (here \<open>add_inplace\<close>).
\<close>

record nn_ops =
  attention_forward ::
    "MultiHeadAttention \<Rightarrow> tensor3 \<Rightarrow> tensor3 \<Rightarrow> tensor3 \<Rightarrow> error + (tensor3 \<times> tensor3)"
  dropout_forward :: "real \<Rightarrow> tensor3 \<Rightarrow> tensor3"
  fc_forward :: "FeedForward \<Rightarrow> tensor3 \<Rightarrow> error + tensor3"
  embedding_forward :: "store \<Rightarrow> Embedding \<Rightarrow> tokens \<Rightarrow> error + tensor3"
  add_inplace :: "tensor3 \<Rightarrow> tensor3 \<Rightarrow> error + tensor3"

text \<open>\<open>self.lnormN(x) if hasattr(self, 'lnormN') else x\<close>.\<close>

definition apply_lnorm :: "LayerNorm1d option \<Rightarrow> tensor3 \<Rightarrow> error + tensor3" where
  "apply_lnorm lnorm x = (case lnorm of Some l \<Rightarrow> LayerNorm1d_forward l x | None \<Rightarrow> Inr x)"

text \<open>The default \<open>eps\<close> of \<open>LayerNorm1d\<close>, \<open>1e-6\<close>, and \<open>affine=True\<close>.\<close>

definition LayerNorm1d_default :: "nat \<Rightarrow> LayerNorm1d" where
  "LayerNorm1d_default num_features = LayerNorm1d_init num_features (1 / 1000000) True"

subsection \<open>EncoderBlock\<close>

text \<open>The layer norms exist only when \<open>weight_norm\<close> is false (lines 42 to 44).\<close>

record EncoderBlock =
  eb_lnorm1 :: "LayerNorm1d option"
  eb_lnorm2 :: "LayerNorm1d option"
  eb_dropout :: real
  eb_attention :: MultiHeadAttention
  eb_fc :: FeedForward

definition EncoderBlock_init :: "nat \<Rightarrow> nat \<Rightarrow> nat \<Rightarrow> bool \<Rightarrow> real \<Rightarrow> EncoderBlock" where
  "EncoderBlock_init hidden_size num_heads inner_linear weight_norm dropout =
     \<lparr>eb_lnorm1 = (if \<not> weight_norm then Some (LayerNorm1d_default hidden_size) else None),
      eb_lnorm2 = (if \<not> weight_norm then Some (LayerNorm1d_default hidden_size) else None),
      eb_dropout = dropout,
      eb_attention =
        MultiHeadAttention_init hidden_size hidden_size num_heads dropout False weight_norm,
      eb_fc = \<lparr>fc_hidden_size = hidden_size, fc_inner_linear = inner_linear,
               fc_weight_norm = weight_norm, fc_dropout = dropout\<rparr>\<rparr>"

definition EncoderBlock_set_mask :: "EncoderBlock \<Rightarrow> mask option \<Rightarrow> EncoderBlock" where
  "EncoderBlock_set_mask self m =
     (let self1 = self\<lparr>eb_attention := set_mask_q (eb_attention self) m\<rparr>
      in self1\<lparr>eb_attention := set_mask_k (eb_attention self1) m\<rparr>)"

definition EncoderBlock_forward :: "nn_ops \<Rightarrow> EncoderBlock \<Rightarrow> tensor3 \<Rightarrow> error + tensor3" where
  "EncoderBlock_forward ops self inputs =
     and_then (attention_forward ops (eb_attention self) inputs inputs inputs) (\<lambda>(x1, _).
     and_then (add_inplace ops (dropout_forward ops (eb_dropout self) x1) inputs) (\<lambda>x2.
     and_then (apply_lnorm (eb_lnorm1 self) x2) (\<lambda>x3.
     and_then (fc_forward ops (eb_fc self) x3) (\<lambda>x4.
     and_then (add_inplace ops (dropout_forward ops (eb_dropout self) x4) x3) (\<lambda>x5.
     apply_lnorm (eb_lnorm2 self) x5)))))"

subsection \<open>DecoderBlock\<close>

record DecoderBlock =
  db_lnorm1 :: "LayerNorm1d option"
  db_lnorm2 :: "LayerNorm1d option"
  db_lnorm3 :: "LayerNorm1d option"
  db_dropout :: real
  db_weight_norm :: bool
  db_attention :: MultiHeadAttention
  db_masked_attention :: MultiHeadAttention
  db_fc :: FeedForward

definition DecoderBlock_init :: "nat \<Rightarrow> nat \<Rightarrow> nat \<Rightarrow> bool \<Rightarrow> real \<Rightarrow> DecoderBlock" where
  "DecoderBlock_init hidden_size num_heads inner_linear weight_norm dropout =
     \<lparr>db_lnorm1 = (if \<not> weight_norm then Some (LayerNorm1d_default hidden_size) else None),
      db_lnorm2 = (if \<not> weight_norm then Some (LayerNorm1d_default hidden_size) else None),
      db_lnorm3 = (if \<not> weight_norm then Some (LayerNorm1d_default hidden_size) else None),
      db_dropout = dropout,
      db_weight_norm = weight_norm,
      db_attention =
        MultiHeadAttention_init hidden_size hidden_size num_heads dropout False weight_norm,
      db_masked_attention =
        MultiHeadAttention_init hidden_size hidden_size num_heads dropout True weight_norm,
      db_fc = \<lparr>fc_hidden_size = hidden_size, fc_inner_linear = inner_linear,
               fc_weight_norm = weight_norm, fc_dropout = dropout\<rparr>\<rparr>"

text \<open>
  \<open>set_mask(mask, context_mask=None)\<close>: the context mask is set on the encoder
  attention only when it is not \<open>None\<close>.
\<close>

definition DecoderBlock_set_mask :: "DecoderBlock \<Rightarrow> mask option \<Rightarrow> mask option \<Rightarrow> DecoderBlock" where
  "DecoderBlock_set_mask self m context_mask =
     (let self1 = (case context_mask of
                     Some c \<Rightarrow> self\<lparr>db_attention := set_mask_k (db_attention self) (Some c)\<rparr>
                   | None \<Rightarrow> self);
          self2 = self1\<lparr>db_masked_attention := set_mask_q (db_masked_attention self1) m\<rparr>
      in self2\<lparr>db_masked_attention := set_mask_k (db_masked_attention self2) m\<rparr>)"

definition DecoderBlock_forward ::
    "nn_ops \<Rightarrow> DecoderBlock \<Rightarrow> tensor3 \<Rightarrow> tensor3 \<Rightarrow> error + (tensor3 \<times> tensor3)" where
  "DecoderBlock_forward ops self inputs context =
     and_then (attention_forward ops (db_masked_attention self) inputs inputs inputs) (\<lambda>(x1, _).
     and_then (add_inplace ops (dropout_forward ops (db_dropout self) x1) inputs) (\<lambda>x2.
     and_then (apply_lnorm (db_lnorm1 self) x2) (\<lambda>x3.
     and_then (attention_forward ops (db_attention self) x3 context context) (\<lambda>(x4, attn_enc).
     and_then (add_inplace ops (dropout_forward ops (db_dropout self) x4) x3) (\<lambda>x5.
     and_then (apply_lnorm (db_lnorm2 self) x5) (\<lambda>x6.
     and_then (fc_forward ops (db_fc self) x6) (\<lambda>x7.
     and_then (add_inplace ops (dropout_forward ops (db_dropout self) x7) x6) (\<lambda>x8.
     and_then (apply_lnorm (db_lnorm3 self) x8) (\<lambda>x9.
     Inr (x9, attn_enc))))))))))"

section \<open>transformer.py: encoder, decoder and model\<close>

text \<open>
  Modelled from the spec: \<open>modules/state.py\<close> (class \<open>State\<close>) is not among the
  sources. A state keeps the keyword arguments it is built from; the encoder gives
  \<open>outputs\<close>, \<open>mask\<close> and \<open>batch_first\<close>.
\<close>

record State =
  st_outputs :: tensor3
  st_mask :: "mask option"
  st_batch_first :: bool

text \<open>\<open>a or b\<close> on an optional size: \<open>None\<close> and 0 are false.\<close>

definition or_else :: "nat option \<Rightarrow> nat \<Rightarrow> nat" where
  "or_else a b = (case a of None \<Rightarrow> b | Some n \<Rightarrow> if n = 0 then b else n)"

text \<open>\<open>inputs.eq(mask_symbol)\<close>: elementwise comparison.\<close>

definition tensor_eq :: "tokens \<Rightarrow> int \<Rightarrow> mask" where
  "tensor_eq inputs symbol =
     \<lparr>tsize = tsize inputs, is_cuda = is_cuda inputs,
      data = map (map (\<lambda>v. v = symbol)) (data inputs)\<rparr>"

text \<open>\<open>x.mul_(c)\<close> for a number \<open>c\<close>.\<close>

definition mul_scalar :: "tensor3 \<Rightarrow> real \<Rightarrow> tensor3" where
  "mul_scalar x c = x\<lparr>data := map (map (map (\<lambda>v. v * c))) (data x)\<rparr>"

text \<open>
  \<open>padding_mask\<close>, lines 135 to 138 and 173 to 176.
\<close>

definition padding_mask_of :: "int option \<Rightarrow> tokens \<Rightarrow> mask option" where
  "padding_mask_of mask_symbol inputs =
     (case mask_symbol of Some symbol \<Rightarrow> Some (tensor_eq inputs symbol) | None \<Rightarrow> None)"

subsection \<open>TransformerAttentionEncoder\<close>

record TransformerAttentionEncoder =
  enc_hidden_size :: nat
  enc_batch_first :: bool
  enc_mask_symbol :: "int option"
  enc_embedder :: Embedding
  enc_scale_embedding :: real
  enc_dropout :: real
  enc_blocks :: "EncoderBlock list"

text \<open>
  \<open>__init__\<close>. \<open>PAD\<close> comes from \<open>seq2seq.tools.config\<close>, which is not among the
  sources: it is a parameter. \<open>hidden_size ** 0.5\<close> is the square root.
\<close>

definition TransformerAttentionEncoder_init ::
    "(nat \<Rightarrow> nat \<Rightarrow> real list list) \<Rightarrow> int \<Rightarrow> store \<Rightarrow> nat \<Rightarrow> nat \<Rightarrow> nat option \<Rightarrow> nat \<Rightarrow> nat \<Rightarrow> nat
      \<Rightarrow> int option \<Rightarrow> bool \<Rightarrow> real \<Rightarrow> TransformerAttentionEncoder \<times> store" where
  "TransformerAttentionEncoder_init init PAD st vocab_size hidden_size embedding_size
       num_layers num_heads inner_linear mask_symbol weight_norm dropout =
     (let embedding_size1 = or_else embedding_size hidden_size;
          (embedder, st1) = nn_Embedding init st vocab_size embedding_size1 PAD
      in (\<lparr>enc_hidden_size = hidden_size, enc_batch_first = True,
           enc_mask_symbol = mask_symbol, enc_embedder = embedder,
           enc_scale_embedding = sqrt (real hidden_size), enc_dropout = dropout,
           enc_blocks = map (\<lambda>_. EncoderBlock_init hidden_size num_heads inner_linear
                                  weight_norm dropout) [0..<num_layers]\<rparr>, st1))"

text \<open>
  The loop of lines 143 to 145: every block gets the mask, then runs. The blocks come
  back with their masks set.
\<close>

fun encoder_blocks_loop ::
    "nn_ops \<Rightarrow> mask option \<Rightarrow> EncoderBlock list \<Rightarrow> tensor3 \<Rightarrow> error + (tensor3 \<times> EncoderBlock list)" where
  "encoder_blocks_loop ops padding_mask [] x = Inr (x, [])"
| "encoder_blocks_loop ops padding_mask (block # blocks) x =
     (let block1 = EncoderBlock_set_mask block padding_mask
      in and_then (EncoderBlock_forward ops block1 x) (\<lambda>x1.
         and_then (encoder_blocks_loop ops padding_mask blocks x1) (\<lambda>(x2, blocks1).
         Inr (x2, block1 # blocks1))))"

text \<open>
  Lines 139 to 141: embedding, scaling, adding the positional embedding (with the
  default timescales 1.0 and 1.0e4), dropout.
\<close>

definition embed_inputs ::
    "nn_ops \<Rightarrow> store \<Rightarrow> Embedding \<Rightarrow> real \<Rightarrow> real \<Rightarrow> tokens \<Rightarrow> error + tensor3" where
  "embed_inputs ops st embedder scale_embedding dropout inputs =
     and_then (embedding_forward ops st embedder inputs) (\<lambda>x0.
     let x1 = mul_scalar x0 scale_embedding
     in and_then (positional_embedding x1 1 10000) (\<lambda>pe.
        and_then (add_inplace ops x1 pe) (\<lambda>x2.
        Inr (dropout_forward ops dropout x2))))"

definition TransformerAttentionEncoder_forward ::
    "nn_ops \<Rightarrow> store \<Rightarrow> TransformerAttentionEncoder \<Rightarrow> tokens
      \<Rightarrow> error + (State \<times> TransformerAttentionEncoder)" where
  "TransformerAttentionEncoder_forward ops st self inputs =
     (let padding_mask = padding_mask_of (enc_mask_symbol self) inputs
      in and_then (embed_inputs ops st (enc_embedder self) (enc_scale_embedding self)
                     (enc_dropout self) inputs) (\<lambda>x.
         and_then (encoder_blocks_loop ops padding_mask (enc_blocks self) x) (\<lambda>(x1, blocks1).
         Inr (\<lparr>st_outputs = x1, st_mask = padding_mask, st_batch_first = True\<rparr>,
              self\<lparr>enc_blocks := blocks1\<rparr>))))"

subsection \<open>TransformerAttentionDecoder\<close>

record TransformerAttentionDecoder =
  dec_batch_first :: bool
  dec_mask_symbol :: "int option"
  dec_embedder :: Embedding
  dec_scale_embedding :: real
  dec_dropout :: real
  dec_blocks :: "DecoderBlock list"
  dec_classifier :: Linear

text \<open>
  \<open>__init__\<close>, lines 152 to 169. The last two lines tie the weights:
  \<open>self.embedder.weight = self.classifier.weight\<close> makes the attribute of the
  embedder refer to the parameter of the classifier.
\<close>

definition TransformerAttentionDecoder_init ::
    "(nat \<Rightarrow> nat \<Rightarrow> real list list) \<Rightarrow> int \<Rightarrow> store \<Rightarrow> nat \<Rightarrow> nat \<Rightarrow> nat option \<Rightarrow> nat \<Rightarrow> nat \<Rightarrow> real
      \<Rightarrow> nat \<Rightarrow> int option \<Rightarrow> bool \<Rightarrow> bool \<Rightarrow> TransformerAttentionDecoder \<times> store" where
  "TransformerAttentionDecoder_init init PAD st vocab_size hidden_size embedding_size
       num_layers num_heads dropout inner_linear mask_symbol tie_embedding weight_norm =
     (let embedding_size1 = or_else embedding_size hidden_size;
          (embedder, st1) = nn_Embedding init st vocab_size embedding_size1 PAD;
          blocks = map (\<lambda>_. DecoderBlock_init hidden_size num_heads inner_linear
                              weight_norm dropout) [0..<num_layers];
          (classifier, st2) = nn_Linear init st1 hidden_size vocab_size;
          self = \<lparr>dec_batch_first = True, dec_mask_symbol = mask_symbol,
                  dec_embedder = embedder, dec_scale_embedding = sqrt (real hidden_size),
                  dec_dropout = dropout, dec_blocks = blocks, dec_classifier = classifier\<rparr>
      in (if tie_embedding
          then self\<lparr>dec_embedder := (dec_embedder self)\<lparr>emb_weight := lin_weight (dec_classifier self)\<rparr>\<rparr>
          else self, st2))"

subsection \<open>Transformer\<close>

text \<open>
  The \<open>encoder\<close> and \<open>decoder\<close> dictionaries of keyword arguments: a key is absent
  (\<open>None\<close>) or has a value. \<open>embedding_size\<close> and \<open>mask_symbol\<close> may have the value
  \<open>None\<close>.
\<close>

record kwargs =
  kw_vocab_size :: "nat option"
  kw_hidden_size :: "nat option"
  kw_embedding_size :: "nat option option"
  kw_num_layers :: "nat option"
  kw_num_heads :: "nat option"
  kw_inner_linear :: "nat option"
  kw_mask_symbol :: "int option option"
  kw_weight_norm :: "bool option"
  kw_dropout :: "real option"
  kw_tie_embedding :: "bool option"

definition empty_kwargs :: kwargs where
  "empty_kwargs =
     \<lparr>kw_vocab_size = None, kw_hidden_size = None, kw_embedding_size = None,
      kw_num_layers = None, kw_num_heads = None, kw_inner_linear = None,
      kw_mask_symbol = None, kw_weight_norm = None, kw_dropout = None,
      kw_tie_embedding = None\<rparr>"

text \<open>
  \<open>d.setdefault(k, v)\<close> followed by the read of \<open>k\<close> in the call \<open>**d\<close>: the value
  the dictionary has, or else \<open>v\<close>.
\<close>

definition setdefault :: "'a option \<Rightarrow> 'a \<Rightarrow> 'a" where
  "setdefault present v = (case present of Some u \<Rightarrow> u | None \<Rightarrow> v)"

record Transformer =
  tr_batch_first :: bool
  tr_encoder :: TransformerAttentionEncoder
  tr_decoder :: TransformerAttentionDecoder

text \<open>
  \<open>__init__\<close>, lines 197 to 229. \<open>encoder or {}\<close> replaces \<open>None\<close> by the empty
  dictionary. The encoder takes no \<open>tie_embedding\<close> argument: that key in its
  dictionary is a TypeError of the call. A \<open>mask_symbol\<close> that is absent takes the
  default \<open>PAD\<close> of the constructors.
\<close>

definition Transformer_init ::
    "(nat \<Rightarrow> nat \<Rightarrow> real list list) \<Rightarrow> int \<Rightarrow> store \<Rightarrow> nat \<Rightarrow> nat \<Rightarrow> nat option \<Rightarrow> nat \<Rightarrow> nat \<Rightarrow> nat
      \<Rightarrow> real \<Rightarrow> bool \<Rightarrow> kwargs option \<Rightarrow> kwargs option \<Rightarrow> bool \<Rightarrow> error + (Transformer \<times> store)" where
  "Transformer_init init PAD st vocab_size hidden_size embedding_size num_layers num_heads
       inner_linear dropout tie_embedding encoder decoder weight_norm =
     (let embedding_size1 = or_else embedding_size hidden_size;
          encoder1 = (case encoder of Some e \<Rightarrow> e | None \<Rightarrow> empty_kwargs);
          decoder1 = (case decoder of Some d \<Rightarrow> d | None \<Rightarrow> empty_kwargs)
      in if kw_tie_embedding encoder1 \<noteq> None then Inl TypeError
         else
           (let (enc, st1) =
                  TransformerAttentionEncoder_init init PAD st
                    (setdefault (kw_vocab_size encoder1) vocab_size)
                    (setdefault (kw_hidden_size encoder1) hidden_size)
                    (setdefault (kw_embedding_size encoder1) (Some embedding_size1))
                    (setdefault (kw_num_layers encoder1) num_layers)
                    (setdefault (kw_num_heads encoder1) num_heads)
                    (setdefault (kw_inner_linear encoder1) inner_linear)
                    (setdefault (kw_mask_symbol encoder1) (Some PAD))
                    (setdefault (kw_weight_norm encoder1) weight_norm)
                    (setdefault (kw_dropout encoder1) dropout);
                (dec, st2) =
                  TransformerAttentionDecoder_init init PAD st1
                    (setdefault (kw_vocab_size decoder1) vocab_size)
                    (setdefault (kw_hidden_size decoder1) hidden_size)
                    (setdefault (kw_embedding_size decoder1) (Some embedding_size1))
                    (setdefault (kw_num_layers decoder1) num_layers)
                    (setdefault (kw_num_heads decoder1) num_heads)
                    (setdefault (kw_dropout decoder1) dropout)
                    (setdefault (kw_inner_linear decoder1) inner_linear)
                    (setdefault (kw_mask_symbol decoder1) (Some PAD))
                    (setdefault (kw_tie_embedding decoder1) tie_embedding)
                    (setdefault (kw_weight_norm decoder1) weight_norm);
                self = \<lparr>tr_batch_first = True, tr_encoder = enc, tr_decoder = dec\<rparr>
            in Inr (if tie_embedding
                    then self\<lparr>tr_encoder := (tr_encoder self)\<lparr>enc_embedder :=
                           (enc_embedder (tr_encoder self))\<lparr>emb_weight :=
                              lin_weight (dec_classifier (tr_decoder self))\<rparr>\<rparr>\<rparr>
                    else self, st2)))"

section \<open>wmt.py: WMT16_de_en\<close>

text \<open>
  Python values the constructor only passes on are of an arbitrary type \<open>'v\<close>; where
  \<open>None\<close> matters the type is \<open>'v option\<close>. An object is its attribute dictionary.
\<close>

type_synonym 'v pyobject = "string \<rightharpoonup> 'v option"

text \<open>\<open>getattr(obj, name, None)\<close>.\<close>

definition getattr_none :: "'v pyobject \<Rightarrow> string \<Rightarrow> 'v option" where
  "getattr_none obj name = (case obj name of Some v \<Rightarrow> v | None \<Rightarrow> None)"

text \<open>The dictionary \<open>options\<close> of lines 28 to 41.\<close>

record 'v options =
  opt_prefix :: string
  opt_languages :: "string list"
  opt_tokenization :: 'v
  opt_num_symbols :: 'v
  opt_shared_vocab :: 'v
  opt_code_files :: "'v option"
  opt_vocab_files :: "'v option"
  opt_insert_start :: 'v
  opt_insert_end :: 'v
  opt_mark_language :: 'v
  opt_tokenizers :: "'v option"
  opt_load_data :: bool

text \<open>
  \<open>__init__\<close>, lines 11 to 61. The class \<open>MultiLanguageDataset\<close>
  (\<open>multi_language.py\<close>) is not among the sources: its constructor \<open>mld_init\<close> and
  its method \<open>load_data\<close> are parameters, each of which may raise. \<open>deepcopy\<close> is
  the identity on values. In the branch of the other splits, \<open>prefix\<close> is assigned for
  \<open>'dev'\<close> and \<open>'test'\<close> only: line 58 reads it unassigned otherwise.
\<close>

definition WMT16_de_en_init ::
    "('v options \<Rightarrow> error + 'v pyobject) \<Rightarrow> ('v pyobject \<Rightarrow> error + 'v pyobject)
      \<Rightarrow> string \<Rightarrow> string \<Rightarrow> 'v \<Rightarrow> 'v \<Rightarrow> 'v \<Rightarrow> 'v option \<Rightarrow> 'v option \<Rightarrow> 'v \<Rightarrow> 'v \<Rightarrow> 'v
      \<Rightarrow> 'v option \<Rightarrow> bool \<Rightarrow> bool \<Rightarrow> error + 'v pyobject" where
  "WMT16_de_en_init mld_init load_data root_dir split tokenization num_symbols shared_vocab
       code_files vocab_files insert_start insert_end mark_language tokenizers moses_pretok
       load_data_flag =
     (let pretok = (if moses_pretok then ''.tok'' else []);
          train_prefix = root_dir @ ''/train'' @ pretok @ ''.clean'';
          options = \<lparr>opt_prefix = train_prefix, opt_languages = [''en'', ''de''],
                     opt_tokenization = tokenization, opt_num_symbols = num_symbols,
                     opt_shared_vocab = shared_vocab, opt_code_files = code_files,
                     opt_vocab_files = vocab_files, opt_insert_start = insert_start,
                     opt_insert_end = insert_end, opt_mark_language = mark_language,
                     opt_tokenizers = tokenizers, opt_load_data = False\<rparr>;
          train_options = options
      in and_then
           (if split = ''train'' then Inr train_options
            else
              and_then (mld_init train_options) (\<lambda>train_data.
                let options1 = options\<lparr>opt_tokenizers := getattr_none train_data ''tokenizers''\<rparr>;
                    options2 = options1\<lparr>opt_code_files := getattr_none train_data ''code_files''\<rparr>;
                    options3 = options2\<lparr>opt_vocab_files := getattr_none train_data ''vocab_files''\<rparr>
                in and_then
                     (if split = ''dev'' then Inr (root_dir @ ''/newstest2014'' @ pretok @ ''.clean'')
                      else if split = ''test'' then Inr (root_dir @ ''/newstest2016'' @ pretok @ ''.clean'')
                      else Inl UnboundLocalError)
                     (\<lambda>prefix. Inr (options3\<lparr>opt_prefix := prefix\<rparr>))))
           (\<lambda>options4.
              and_then (mld_init options4) (\<lambda>self.
                if load_data_flag then load_data self else Inr self)))"

text \<open>
  The claimed scheme, in the claim's words: the scale \<open>s_i\<close> of index \<open>i\<close> among
  \<open>n\<close> timescales, and the row of position \<open>p\<close>: the sines of \<open>p * s_i\<close>
  followed by the cosines.
\<close>

definition timescale :: "real \<Rightarrow> real \<Rightarrow> nat \<Rightarrow> nat \<Rightarrow> real" where
  "timescale min_timescale max_timescale n i =
     min_timescale * (max_timescale / min_timescale) powr (- real i / (real n - 1))"

definition sinusoid_row :: "real \<Rightarrow> real \<Rightarrow> nat \<Rightarrow> nat \<Rightarrow> real list" where
  "sinusoid_row min_timescale max_timescale n p =
     map (\<lambda>i. sin (real p * timescale min_timescale max_timescale n i)) [0..<n] @
     map (\<lambda>i. cos (real p * timescale min_timescale max_timescale n i)) [0..<n]"

text \<open>The row of position \<open>p\<close> for any list of scales.\<close>

definition sinusoid_of :: "real list \<Rightarrow> nat \<Rightarrow> real list" where
  "sinusoid_of scales p =
     map (\<lambda>s. sin (real p * s)) scales @ map (\<lambda>s. cos (real p * s)) scales"

text \<open>A sequence runs from \<open>a\<close> to \<open>b\<close>: it starts at \<open>a\<close> and ends at \<open>b\<close>.\<close>

definition runs_from_to :: "real list \<Rightarrow> real \<Rightarrow> real \<Rightarrow> bool" where
  "runs_from_to xs a b = (xs \<noteq> [] \<and> hd xs = a \<and> last xs = b)"

text \<open>
  The claim's words for \<open>wmt.py\<close>: the prefix \<open>{root}/{name}{pretok}.clean\<close> of a
  corpus, the options over the train prefix (lines 25 to 41), and the end of the
  constructor (lines 59 to 61): the dataset built from the options, then
  \<open>load_data\<close> when asked.
\<close>

definition corpus_prefix :: "string \<Rightarrow> string \<Rightarrow> bool \<Rightarrow> string" where
  "corpus_prefix root_dir name moses_pretok =
     root_dir @ ''/'' @ name @ (if moses_pretok then ''.tok'' else []) @ ''.clean''"

definition train_options ::
    "string \<Rightarrow> 'v \<Rightarrow> 'v \<Rightarrow> 'v \<Rightarrow> 'v option \<Rightarrow> 'v option \<Rightarrow> 'v \<Rightarrow> 'v \<Rightarrow> 'v \<Rightarrow> 'v option \<Rightarrow> bool
      \<Rightarrow> 'v options" where
  "train_options root_dir tokenization num_symbols shared_vocab code_files vocab_files
       insert_start insert_end mark_language tokenizers moses_pretok =
     \<lparr>opt_prefix = corpus_prefix root_dir ''train'' moses_pretok, opt_languages = [''en'', ''de''],
      opt_tokenization = tokenization, opt_num_symbols = num_symbols,
      opt_shared_vocab = shared_vocab, opt_code_files = code_files,
      opt_vocab_files = vocab_files, opt_insert_start = insert_start,
      opt_insert_end = insert_end, opt_mark_language = mark_language,
      opt_tokenizers = tokenizers, opt_load_data = False\<rparr>"

definition finish_init ::
    "('v options \<Rightarrow> error + 'v pyobject) \<Rightarrow> ('v pyobject \<Rightarrow> error + 'v pyobject) \<Rightarrow> bool
      \<Rightarrow> 'v options \<Rightarrow> error + 'v pyobject" where
  "finish_init mld_init load_data load_data_flag opts =
     and_then (mld_init opts) (\<lambda>self. if load_data_flag then load_data self else Inr self)"

section \<open>Auxiliary definitions\<close>

text \<open>
  The rows that the proofs about \<open>LayerNorm1d.forward\<close> go through: a centred row, a
  normalised row, and a row scaled by the weight and shifted by the bias.
\<close>

definition center :: "real list \<Rightarrow> real list" where
  "center r = map (\<lambda>x. x - row_mean r) r"

definition norm_row :: "real \<Rightarrow> real list \<Rightarrow> real list" where
  "norm_row eps r = map (\<lambda>x. (x - row_mean r) / sqrt (biased_variance r + eps)) r"

definition affine_row :: "real list \<Rightarrow> real list \<Rightarrow> real list \<Rightarrow> real list" where
  "affine_row w bs r = map2 (+) (map2 (*) r w) bs"

section \<open>Example inputs\<close>

text \<open>
  The concrete inputs at which the theorems are instantiated: tensors, a layer norm,
  an empty store with zero initial values, and an encoder of two blocks.
\<close>

definition x_1_2_4 :: tensor3 where
  "x_1_2_4 = \<lparr>tsize = [1, 2, 4], is_cuda = False, data = [[[3, 1, 4, 1], [5, 9, 2, 6]]]\<rparr>"

definition x_1_1_2 :: tensor3 where
  "x_1_1_2 = \<lparr>tsize = [1, 1, 2], is_cuda = False, data = [[[1, 3]]]\<rparr>"

definition tokens_1_2 :: tokens where
  "tokens_1_2 = \<lparr>tsize = [1, 2], is_cuda = False, data = [[1, 0]]\<rparr>"

definition layer_norm_example :: LayerNorm1d where
  "layer_norm_example =
     \<lparr>ln_eps = 3, ln_num_features = 2, ln_affine = True,
      ln_weight = Some [2, 3], ln_bias = Some [1, - 1]\<rparr>"

definition zero_init :: "nat \<Rightarrow> nat \<Rightarrow> real list list" where
  "zero_init rows cols = replicate rows (replicate cols 0)"

definition empty_store :: store where
  "empty_store = \<lparr>next_ref = 0, params = Map.empty\<rparr>"

text \<open>
  A model built with \<open>tie_embedding=True\<close> and the decoder dictionary
  \<open>{'tie_embedding': False}\<close>.
\<close>

definition untied_decoder_kwargs :: kwargs where
  "untied_decoder_kwargs = empty_kwargs\<lparr>kw_tie_embedding := Some False\<rparr>"

definition example_untied_model :: "error + (Transformer \<times> store)" where
  "example_untied_model =
     Transformer_init zero_init 0 empty_store 3 2 None 1 1 4 0 True None
       (Some untied_decoder_kwargs) False"

text \<open>
  An instance of the framework's operations, small enough to run: the attention
  returns its queries and, as scores, its keys; dropout and the feed-forward stack are
  the identity; the embedding of a token is its number in every feature; \<open>add_\<close>
  adds tensors of one size elementwise.
\<close>

definition example_ops :: nn_ops where
  "example_ops =
     \<lparr>attention_forward = (\<lambda>self q k v. Inr (q, k)),
      dropout_forward = (\<lambda>p x. x),
      fc_forward = (\<lambda>self x. Inr x),
      embedding_forward = (\<lambda>st self inputs.
         Inr \<lparr>tsize = tsize inputs @ [emb_embedding_dim self], is_cuda = is_cuda inputs,
              data = map (map (\<lambda>v. replicate (emb_embedding_dim self) (real_of_int v))) (data inputs)\<rparr>),
      add_inplace = (\<lambda>a b. if tsize a = tsize b
                             then Inr (a\<lparr>data := zip3 (+) (data a) (data b)\<rparr>)
                             else Inl RuntimeError)\<rparr>"

definition example_encoder :: TransformerAttentionEncoder where
  "example_encoder =
     fst (TransformerAttentionEncoder_init zero_init 0 empty_store 3 4 None 2 1 8 (Some 0) False 0)"

definition example_encoder_store :: store where
  "example_encoder_store =
     snd (TransformerAttentionEncoder_init zero_init 0 empty_store 3 4 None 2 1 8 (Some 0) False 0)"

text \<open>
  A constructor of \<open>MultiLanguageDataset\<close> that always succeeds: the dataset keeps its
  prefix, and keeps the tokenizers, code files and vocabulary files it is given or,
  given \<open>None\<close>, makes its own from its prefix.
\<close>

definition example_mld :: "string options \<Rightarrow> error + string pyobject" where
  "example_mld opts =
     Inr [''prefix'' \<mapsto> Some (opt_prefix opts),
          ''tokenizers'' \<mapsto>
             Some (case opt_tokenizers opts of Some t \<Rightarrow> t | None \<Rightarrow> ''tokenizers of '' @ opt_prefix opts),
          ''code_files'' \<mapsto>
             Some (case opt_code_files opts of Some c \<Rightarrow> c | None \<Rightarrow> ''codes of '' @ opt_prefix opts),
          ''vocab_files'' \<mapsto>
             Some (case opt_vocab_files opts of Some v \<Rightarrow> v | None \<Rightarrow> ''vocab of '' @ opt_prefix opts)]"

section \<open>Properties\<close>

subsection \<open>positional_embedding\<close>

lemma inv_timescales_value:
  assumes "0 < max_timescale / min_timescale" "n \<noteq> 1"
  shows "inv_timescales min_timescale max_timescale n =
     Inr (map (timescale min_timescale max_timescale n) [0..<n])"
proof -
  have nz: "max_timescale / min_timescale \<noteq> 0" using assms(1) by (metis order_less_irrefl)
  then have mnz: "min_timescale \<noteq> 0" by auto
  have inc: "log_timescale_increment min_timescale max_timescale n =
      Inr (ln (max_timescale / min_timescale) / (real n - 1))"
    using assms mnz by (simp add: log_timescale_increment_def)
  show ?thesis
    using nz by (simp add: inv_timescales_def inc and_then_def arange_def powr_def o_def mult.commute timescale_def)
qed

lemma scaled_time_eq:
  assumes "length ts = n"
  shows "mul2 (unsqueeze1_expand n (arange l)) (unsqueeze0_expand l ts) =
         map (\<lambda>p. map (\<lambda>s. real p * s) ts) [0..<l]"
  using assms
  by (intro nth_equalityI) (simp_all add: mul2_def unsqueeze1_expand_def unsqueeze0_expand_def arange_def)

lemma cat1_map:
  "cat1 (map f xs) (map g xs) = map (\<lambda>x. f x @ g x) xs"
  by (induction xs) (simp_all add: cat1_def)

lemma positional_embedding_value:
  assumes sz: "tsize x = [batch, len, channels]"
    and ev: "even channels" and ne: "channels \<noteq> 2"
    and pos: "0 < max_timescale / min_timescale"
  shows "positional_embedding x min_timescale max_timescale =
     Inr \<lparr>tsize = [batch, len, channels], is_cuda = is_cuda x,
          data = replicate batch
            (map (sinusoid_row min_timescale max_timescale (channels div 2)) [0..<len])\<rparr>"
proof -
  have n1: "channels div 2 \<noteq> 1" using ev ne by presburger
  have st: "mul2 (unsqueeze1_expand (channels div 2) (arange len))
        (replicate len (map (timescale min_timescale max_timescale (channels div 2)) [0..<channels div 2]))
      = map (\<lambda>p. map (\<lambda>s. real p * s) (map (timescale min_timescale max_timescale (channels div 2)) [0..<channels div 2])) [0..<len]"
    using scaled_time_eq[of "map (timescale min_timescale max_timescale (channels div 2)) [0..<channels div 2]" "channels div 2" len]
    by (simp add: unsqueeze0_expand_def)
  show ?thesis
    using ev
    by (simp add: positional_embedding_def sz inv_timescales_value[OF pos n1] and_then_def st
        cat1_map unsqueeze0_expand_def sinusoid_row_def o_def Let_def)
qed

lemma timescale_first: 
  assumes "0 < mx / mn" shows "timescale mn mx n 0 = mn"
proof -
  have "mx / mn \<noteq> 0" using assms by (metis order_less_irrefl)
  then show ?thesis by (simp add: timescale_def)
qed

lemma timescale_last: 
  assumes "0 < mx / mn" "2 \<le> n" shows "timescale mn mx n (n - 1) = mn * mn / mx"
proof -
  have "real (n - 1) = real n - 1" and "real n - 1 \<noteq> 0" using assms(2) by (simp_all add: of_nat_diff)
  then have e: "- real (n - 1) / (real n - 1) = -1" by (simp add: field_simps)
  have "timescale mn mx n (n - 1) = mn * (mx / mn) powr (- real (n - 1) / (real n - 1))"
    by (simp only: timescale_def)
  also have "\<dots> = mn * (mx / mn) powr (-1)" by (simp only: e)
  also have "\<dots> = mn * (1 / (mx / mn) powr 1)" by (simp only: powr_minus_divide)
  also have "\<dots> = mn * (1 / (mx / mn))" using assms(1) by (simp only: powr_one less_imp_le)
  also have "\<dots> = mn * (mn / mx)" by simp
  finally show ?thesis by simp
qed

lemma timescale_step:
  "timescale mn mx n (Suc i) = timescale mn mx n i * (mx / mn) powr (- 1 / (real n - 1))"
proof -
  have "- real (Suc i) = - real i + (- 1)" by simp
  then have "- real (Suc i) / (real n - 1) = - real i / (real n - 1) + (- 1 / (real n - 1))"
    by (simp only: add_divide_distrib)
  then show ?thesis
    by (simp only: timescale_def powr_add mult.assoc)
qed

lemma upt_0_2: "[0..<2] = [0, Suc 0]"
  by (simp add: numeral_2_eq_2)

lemma sinusoid_row_of:
  "sinusoid_row mn mx n p = sinusoid_of (map (timescale mn mx n) [0..<n]) p"
  by (simp add: sinusoid_row_def sinusoid_of_def o_def)

lemma timescale_inverse_step:
  assumes "0 < mx / mn"
  shows "inverse (timescale mn mx n (Suc i)) =
         inverse (timescale mn mx n i) * (mx / mn) powr (1 / (real n - 1))"
proof -
  have "inverse (timescale mn mx n (Suc i)) =
        inverse (timescale mn mx n i) * inverse ((mx / mn) powr (- 1 / (real n - 1)))"
    by (simp only: timescale_step[of mn mx n i] inverse_mult_distrib)
  also have "inverse ((mx / mn) powr (- 1 / (real n - 1))) = (mx / mn) powr (1 / (real n - 1))"
  proof -
    have "- 1 / (real n - 1) = - (1 / (real n - 1))" by simp
    then show ?thesis by (simp only: powr_minus inverse_inverse_eq)
  qed
  finally show ?thesis .
qed

lemma runs_inverse_timescales:
  assumes pos: "0 < mx / mn" and n2: "2 \<le> n" and unit: "mn = 1 \<or> mn = - 1"
  shows "runs_from_to (map inverse (map (timescale mn mx n) [0..<n])) mn mx"
proof -
  have ne: "[0..<n] \<noteq> []" using n2 by simp
  have h: "hd (map inverse (map (timescale mn mx n) [0..<n])) = inverse (timescale mn mx n 0)"
    using n2 by (simp add: hd_map ne hd_upt)
  have l: "last (map inverse (map (timescale mn mx n) [0..<n])) = inverse (timescale mn mx n (n - 1))"
    using n2 by (simp add: last_map ne last_upt)
  have f: "inverse (timescale mn mx n 0) = mn"
    using unit timescale_first[OF pos, of n] by auto
  have e: "inverse (timescale mn mx n (n - 1)) = mx"
    using unit timescale_last[OF pos n2] by auto
  show ?thesis
    using ne by (simp only: runs_from_to_def h l f e) simp
qed

text \<open>
  Claim C3, as amended. For an input of size \<open>(batch, len, channels)\<close> with
  \<open>channels\<close> even and at least 4, and timescales whose quotient is positive,
  \<open>positional_embedding\<close> returns a well-formed tensor of the same size, on the
  device of the input, with the same rows for every element of the batch: the row of
  position \<open>p\<close> is the sines of \<open>p * s_i\<close> followed by the cosines, for the
  \<open>channels div 2\<close> scales \<open>s_i\<close> that \<open>inv_timescales\<close> holds. The scales form a
  geometric progression of ratio
  \<open>(max_timescale / min_timescale) powr (- 1 / (channels div 2 - 1))\<close>, and their
  inverses, the timescales, one of the inverse ratio. When \<open>min_timescale\<close> is 1 (the
  default) or -1,
  \<open>s_i = min_timescale * (max_timescale / min_timescale) powr (- i / (channels div 2 - 1))\<close>
  and the timescales run from \<open>min_timescale\<close> to \<open>max_timescale\<close>. Nothing is said of
  the first scale for another \<open>min_timescale\<close>, where line 27 multiplies by
  \<open>min_timescale\<close> a tensor named \<open>inv_timescales\<close>.
\<close>

theorem positional_embedding_sinusoid:
  assumes sz: "tsize x = [batch, len, channels]"
    and ev: "even channels" and ge: "4 \<le> channels"
    and pos: "0 < max_timescale / min_timescale"
  shows "\<exists>scales.
           inv_timescales min_timescale max_timescale (channels div 2) = Inr scales
         \<and> length scales = channels div 2
         \<and> positional_embedding x min_timescale max_timescale =
             Inr \<lparr>tsize = [batch, len, channels], is_cuda = is_cuda x,
                  data = replicate batch (map (sinusoid_of scales) [0..<len])\<rparr>
         \<and> wf3 \<lparr>tsize = [batch, len, channels], is_cuda = is_cuda x,
                  data = replicate batch (map (sinusoid_of scales) [0..<len])\<rparr>
         \<and> (\<forall>i. Suc i < channels div 2 \<longrightarrow>
                scales ! Suc i =
                  scales ! i * (max_timescale / min_timescale) powr (- 1 / (real (channels div 2) - 1))
              \<and> inverse (scales ! Suc i) =
                  inverse (scales ! i) * (max_timescale / min_timescale) powr (1 / (real (channels div 2) - 1)))
         \<and> (min_timescale = 1 \<or> min_timescale = - 1 \<longrightarrow>
                scales = map (timescale min_timescale max_timescale (channels div 2)) [0..<channels div 2]
              \<and> runs_from_to (map inverse scales) min_timescale max_timescale)"
proof -
  let ?n = "channels div 2"
  let ?scales = "map (timescale min_timescale max_timescale ?n) [0..<?n]"
  have ne: "channels \<noteq> 2" using ge by simp
  have n2: "2 \<le> ?n" using ge by simp
  have n1: "?n \<noteq> 1" using n2 by simp
  have c2: "2 * ?n = channels" using ev by simp
  have a: "inv_timescales min_timescale max_timescale ?n = Inr ?scales"
    by (rule inv_timescales_value[OF pos n1])
  have b: "length ?scales = ?n" by simp
  have c: "positional_embedding x min_timescale max_timescale =
             Inr \<lparr>tsize = [batch, len, channels], is_cuda = is_cuda x,
                  data = replicate batch (map (sinusoid_of ?scales) [0..<len])\<rparr>"
    using positional_embedding_value[OF sz ev ne pos] by (simp add: sinusoid_row_of[abs_def])
  have d: "wf3 \<lparr>tsize = [batch, len, channels], is_cuda = is_cuda x,
                  data = replicate batch (map (sinusoid_of ?scales) [0..<len])\<rparr>"
    using c2 by (simp add: wf3_def list_all_iff sinusoid_of_def)
  have e: "\<forall>i. Suc i < ?n \<longrightarrow>
                ?scales ! Suc i =
                  ?scales ! i * (max_timescale / min_timescale) powr (- 1 / (real ?n - 1))
              \<and> inverse (?scales ! Suc i) =
                  inverse (?scales ! i) * (max_timescale / min_timescale) powr (1 / (real ?n - 1))"
  proof (intro allI impI)
    fix i assume i: "Suc i < ?n"
    then have "?scales ! Suc i = timescale min_timescale max_timescale ?n (Suc i)"
      and "?scales ! i = timescale min_timescale max_timescale ?n i"
      by simp_all
    then show "?scales ! Suc i =
                  ?scales ! i * (max_timescale / min_timescale) powr (- 1 / (real ?n - 1))
              \<and> inverse (?scales ! Suc i) =
                  inverse (?scales ! i) * (max_timescale / min_timescale) powr (1 / (real ?n - 1))"
      using timescale_step[of min_timescale max_timescale ?n i]
        timescale_inverse_step[OF pos, of ?n i] by simp
  qed
  have f: "min_timescale = 1 \<or> min_timescale = - 1 \<longrightarrow>
                ?scales = map (timescale min_timescale max_timescale ?n) [0..<?n]
              \<and> runs_from_to (map inverse ?scales) min_timescale max_timescale"
    using runs_inverse_timescales[OF pos n2] by blast
  show ?thesis
    using a b c d e f by (intro exI[of _ ?scales] conjI)
qed

text \<open>
  The theorem at an input of size \<open>(1, 2, 4)\<close> with the default timescales 1 and 10000.
\<close>

theorem positional_embedding_sinusoid_witness:
  "positional_embedding x_1_2_4 1 10000 =
     Inr \<lparr>tsize = [1, 2, 4], is_cuda = False,
          data = [[sinusoid_of [timescale 1 10000 2 0, timescale 1 10000 2 1] 0,
                   sinusoid_of [timescale 1 10000 2 0, timescale 1 10000 2 1] 1]]\<rparr>
   \<and> inv_timescales 1 10000 2 = Inr [timescale 1 10000 2 0, timescale 1 10000 2 1]
   \<and> runs_from_to (map inverse [timescale 1 10000 2 0, timescale 1 10000 2 1]) 1 10000"
proof -
  have sz: "tsize x_1_2_4 = [1, 2, 4]" by (simp add: x_1_2_4_def)
  have ev: "even (4::nat)" and ge: "4 \<le> (4::nat)" and pos: "0 < (10000::real) / 1" by simp_all
  from positional_embedding_sinusoid[OF sz ev ge pos]
  obtain scales where s:
    "inv_timescales 1 10000 (4 div 2) = Inr scales"
    "positional_embedding x_1_2_4 1 10000 =
             Inr \<lparr>tsize = [1, 2, 4], is_cuda = is_cuda x_1_2_4,
                  data = replicate 1 (map (sinusoid_of scales) [0..<2])\<rparr>"
    "(1::real) = 1 \<or> (1::real) = - 1 \<longrightarrow>
                scales = map (timescale 1 10000 (4 div 2)) [0..<4 div 2]
              \<and> runs_from_to (map inverse scales) 1 10000"
    by blast
  have sc: "scales = [timescale 1 10000 2 0, timescale 1 10000 2 1]"
    using s(3) by (simp add: upt_0_2)
  show ?thesis
    using s sc by (simp add: x_1_2_4_def upt_0_2)
qed

text \<open>
  Claim C3 as stated fails. With \<open>min_timescale = 2\<close>, \<open>max_timescale = 8\<close> and four
  channels the scales are 2 and 1/2: neither they nor their inverses run from
  \<open>min_timescale\<close> to \<open>max_timescale\<close>. And the function does not return for every
  pair of timescales: \<open>min_timescale = 0\<close> raises ZeroDivisionError in the quotient,
  and a negative quotient raises ValueError in \<open>math.log\<close>.
\<close>

theorem timescales_not_min_to_max:
  "inv_timescales 2 8 2 = Inr [2, 1 / 2]
   \<and> \<not> runs_from_to [2, 1 / 2] 2 8
   \<and> \<not> runs_from_to (map inverse [2, 1 / 2]) 2 8
   \<and> positional_embedding \<lparr>tsize = [1, 2, 4], is_cuda = False, data = [[[3, 1, 4, 1], [5, 9, 2, 6::real]]]\<rparr> 2 8
       = Inr \<lparr>tsize = [1, 2, 4], is_cuda = False,
              data = [[[0, 0, 1, 1], [sin 2, sin (1 / 2), cos 2, cos (1 / 2)]]]\<rparr>
   \<and> positional_embedding \<lparr>tsize = [1, 2, 4], is_cuda = False, data = [[[3, 1, 4, 1], [5, 9, 2, 6::real]]]\<rparr> 0 10000
       = Inl ZeroDivisionError
   \<and> positional_embedding \<lparr>tsize = [1, 2, 4], is_cuda = False, data = [[[3, 1, 4, 1], [5, 9, 2, 6::real]]]\<rparr> 1 (- 1)
       = Inl ValueError"
proof -
  have t0: "timescale 2 8 2 0 = 2" using timescale_first[of 8 2 2] by simp
  have t1: "timescale 2 8 2 (Suc 0) = 1/2" using timescale_last[of 8 2 2] by simp
  have r0: "sinusoid_row 2 8 2 0 = [0, 0, 1, 1]" by (simp add: sinusoid_row_def upt_0_2)
  have r1: "sinusoid_row 2 8 2 (Suc 0) = [sin 2, sin (1/2), cos 2, cos (1/2)]"
    by (simp add: sinusoid_row_def upt_0_2 t0 t1)
  have a: "inv_timescales 2 8 2 = Inr [2, 1 / 2]"
    using inv_timescales_value[of 8 2 2] by (simp add: upt_0_2 t0 t1)
  have b: "positional_embedding \<lparr>tsize = [1, 2, 4], is_cuda = False, data = [[[3, 1, 4, 1], [5, 9, 2, 6::real]]]\<rparr> 2 8
       = Inr \<lparr>tsize = [1, 2, 4], is_cuda = False,
              data = [[[0, 0, 1, 1], [sin 2, sin (1 / 2), cos 2, cos (1 / 2)]]]\<rparr>"
    using positional_embedding_value[of "\<lparr>tsize = [1, 2, 4], is_cuda = False, data = [[[3, 1, 4, 1], [5, 9, 2, 6::real]]]\<rparr>" 1 2 4 8 2]
    by (simp add: upt_0_2 r0 r1)
  have c: "positional_embedding \<lparr>tsize = [1, 2, 4], is_cuda = False, data = [[[3, 1, 4, 1], [5, 9, 2, 6::real]]]\<rparr> 0 10000
       = Inl ZeroDivisionError"
    by (simp add: positional_embedding_def inv_timescales_def log_timescale_increment_def and_then_def)
  have d: "positional_embedding \<lparr>tsize = [1, 2, 4], is_cuda = False, data = [[[3, 1, 4, 1], [5, 9, 2, 6::real]]]\<rparr> 1 (- 1)
       = Inl ValueError"
    by (simp add: positional_embedding_def inv_timescales_def log_timescale_increment_def and_then_def)
  show ?thesis using a b c d by (simp add: runs_from_to_def)
qed

text \<open>
  Claim C8. For an input of size \<open>(batch, len, channels)\<close>: an odd \<open>channels\<close>
  raises AssertionError; an even \<open>channels\<close> of at least 4 passes the assertion and
  has a divisor \<open>channels div 2 - 1\<close> other than zero, so that the increment is
  computed and the function returns (for timescales whose quotient is positive, where
  the logarithm is defined); with \<open>channels = 2\<close> the divisor is zero and the
  computation of the increment raises ZeroDivisionError.
\<close>

theorem positional_embedding_channels:
  assumes sz: "tsize x = [batch, len, channels]"
  shows "(odd channels \<longrightarrow> positional_embedding x mn mx = Inl AssertionError)
       \<and> (even channels \<and> 4 \<le> channels \<longrightarrow>
            positional_embedding x mn mx \<noteq> Inl AssertionError
          \<and> real (channels div 2) - 1 \<noteq> 0
          \<and> (0 < mx / mn \<longrightarrow>
               log_timescale_increment mn mx (channels div 2) =
                 Inr (ln (mx / mn) / (real (channels div 2) - 1))
             \<and> (\<exists>out. positional_embedding x mn mx = Inr out)))
       \<and> (channels = 2 \<longrightarrow>
            real (channels div 2) - 1 = 0
          \<and> (0 < mx / mn \<longrightarrow>
               log_timescale_increment mn mx (channels div 2) = Inl ZeroDivisionError
             \<and> positional_embedding x mn mx = Inl ZeroDivisionError))"
proof (intro conjI impI)
  assume "odd channels"
  then show "positional_embedding x mn mx = Inl AssertionError"
    by (simp add: positional_embedding_def sz even_iff_mod_2_eq_zero)
next
  assume h: "even channels \<and> 4 \<le> channels"
  show "positional_embedding x mn mx \<noteq> Inl AssertionError"
    using h
    by (auto simp add: positional_embedding_def sz inv_timescales_def log_timescale_increment_def and_then_def Let_def)
  show "real (channels div 2) - 1 \<noteq> 0" 
  proof -
    have "2 \<le> channels div 2" using h by presburger
    then show ?thesis by simp
  qed
next
  assume h: "even channels \<and> 4 \<le> channels" and pos: "0 < mx / mn"
  have nz: "mn \<noteq> 0" using pos by (metis div_by_0 order_less_irrefl)
  have "2 \<le> channels div 2" using h by presburger
  then have "real (channels div 2) - 1 \<noteq> 0" by simp
  then show "log_timescale_increment mn mx (channels div 2) =
                 Inr (ln (mx / mn) / (real (channels div 2) - 1))"
    using pos nz by (simp add: log_timescale_increment_def)
  have "channels \<noteq> 2" using h by simp
  then show "\<exists>out. positional_embedding x mn mx = Inr out"
    using positional_embedding_value[OF sz _ _ pos] h by simp
next
  assume "channels = 2"
  then show "real (channels div 2) - 1 = 0" by simp
next
  assume c: "channels = 2" and pos: "0 < mx / mn"
  have nz: "mn \<noteq> 0" using pos by (metis div_by_0 order_less_irrefl)
  show l: "log_timescale_increment mn mx (channels div 2) = Inl ZeroDivisionError"
    using pos nz c by (simp add: log_timescale_increment_def)
  show "positional_embedding x mn mx = Inl ZeroDivisionError"
    using c l by (simp add: positional_embedding_def sz inv_timescales_def and_then_def)
qed

text \<open>
  The theorem at inputs of 3, 4 and 2 channels with the default timescales.
\<close>

theorem positional_embedding_channels_witness:
  "positional_embedding \<lparr>tsize = [1, 1, 3], is_cuda = False, data = [[[1, 2, 3::real]]]\<rparr> 1 10000
     = Inl AssertionError
   \<and> (\<exists>out. positional_embedding \<lparr>tsize = [1, 1, 4], is_cuda = False, data = [[[1, 2, 3, 4::real]]]\<rparr> 1 10000
     = Inr out)
   \<and> positional_embedding \<lparr>tsize = [1, 1, 2], is_cuda = False, data = [[[1, 2::real]]]\<rparr> 1 10000
     = Inl ZeroDivisionError"
  using positional_embedding_channels[of "\<lparr>tsize = [1, 1, 3], is_cuda = False, data = [[[1, 2, 3::real]]]\<rparr>" 1 1 3 1 10000]
    positional_embedding_channels[of "\<lparr>tsize = [1, 1, 4], is_cuda = False, data = [[[1, 2, 3, 4::real]]]\<rparr>" 1 1 4 1 10000]
    positional_embedding_channels[of "\<lparr>tsize = [1, 1, 2], is_cuda = False, data = [[[1, 2::real]]]\<rparr>" 1 1 2 1 10000]
  by simp

text \<open>
  Claim C10. Two inputs of one size and one device give the same result (the same
  tensor or the same exception), whatever their elements.
\<close>

theorem positional_embedding_shape_only:
  assumes "tsize x1 = tsize x2" and "is_cuda x1 = is_cuda x2"
  shows "positional_embedding x1 mn mx = positional_embedding x2 mn mx"
  using assms by (simp add: positional_embedding_def split: list.splits)

text \<open>
  The theorem at two inputs of size \<open>(1, 2, 4)\<close> with different elements.
\<close>

theorem positional_embedding_shape_only_witness:
  "data \<lparr>tsize = [1, 2, 4], is_cuda = False, data = [[[3, 1, 4, 1], [5, 9, 2, 6::real]]]\<rparr>
     \<noteq> data \<lparr>tsize = [1, 2, 4], is_cuda = False, data = [[[0, 0, 0, 0], [0, 0, 0, 0::real]]]\<rparr>
   \<and> positional_embedding \<lparr>tsize = [1, 2, 4], is_cuda = False, data = [[[3, 1, 4, 1], [5, 9, 2, 6::real]]]\<rparr> 1 10000
     = positional_embedding \<lparr>tsize = [1, 2, 4], is_cuda = False, data = [[[0, 0, 0, 0], [0, 0, 0, 0::real]]]\<rparr> 1 10000"
  using positional_embedding_shape_only[of 
      "\<lparr>tsize = [1, 2, 4], is_cuda = False, data = [[[3, 1, 4, 1], [5, 9, 2, 6::real]]]\<rparr>"
      "\<lparr>tsize = [1, 2, 4], is_cuda = False, data = [[[0, 0, 0, 0], [0, 0, 0, 0::real]]]\<rparr>" 1 10000]
  by simp

subsection \<open>LayerNorm1d\<close>

lemma map2_map_map: "map2 g (map h xs) (map k xs) = map (\<lambda>x. g (h x) (k x)) xs"
  by (induction xs) simp_all

lemma map2_self_map: "map2 g xs (map k xs) = map (\<lambda>x. g x (k x)) xs"
  by (induction xs) simp_all

lemma map2_replicate_right: "length xs = n \<Longrightarrow> map2 g xs (replicate n y) = map (\<lambda>x. g x y) xs"
  by (induction xs arbitrary: n) auto

lemma centered_eq:
  assumes "\<forall>m \<in> set d. \<forall>r \<in> set m. length r = f"
  shows "zip3 (-) d (expand_as_last f (view_b_t_1 (mean_dim2 d))) = map (map center) d"
proof -
  have "zip3 (-) d (expand_as_last f (view_b_t_1 (mean_dim2 d)))
      = map (map (\<lambda>r. map2 (-) r (replicate f (row_mean r)))) d"
    by (simp add: zip3_def expand_as_last_def view_b_t_1_def mean_dim2_def map2_self_map o_def row_mean_def)
  also have "\<dots> = map (map center) d"
    using assms by (auto simp add: map2_replicate_right center_def intro!: map_cong)
  finally show ?thesis .
qed

lemma output_eq:
  assumes "\<forall>m \<in> set d. \<forall>r \<in> set m. length r = f"
  shows "zip3 (/) (map (map center) d)
           (expand_as_last f (view_b_t_1 (map (map sqrt) (map (map (\<lambda>v. v + eps))
              (mean_dim2 (map (map (map (\<lambda>v. v ^ 2))) (map (map center) d)))))))
         = map (map (norm_row eps)) d"
proof -
  have "zip3 (/) (map (map center) d)
           (expand_as_last f (view_b_t_1 (map (map sqrt) (map (map (\<lambda>v. v + eps))
              (mean_dim2 (map (map (map (\<lambda>v. v ^ 2))) (map (map center) d)))))))
      = map (map (\<lambda>r. map2 (/) (center r) (replicate f (sqrt (biased_variance r + eps))))) d"
    by (simp add: zip3_def expand_as_last_def view_b_t_1_def mean_dim2_def map2_map_map o_def
        biased_variance_def center_def)
  also have "\<dots> = map (map (norm_row eps)) d"
    using assms by (auto simp add: map2_replicate_right center_def norm_row_def o_def intro!: map_cong)
  finally show ?thesis .
qed

lemma zip3_replicate:
  assumes "length d = b" "\<forall>m \<in> set d. length m = t"
  shows "zip3 g (map (map h) d) (replicate b (replicate t w)) = map (map (\<lambda>r. map2 g (h r) w)) d"
proof -
  have "zip3 g (map (map h) d) (replicate b (replicate t w))
      = map (\<lambda>m. map2 (\<lambda>r s. map2 g r s) m (replicate t w)) (map (map h) d)"
    using assms(1) by (simp add: zip3_def map2_replicate_right)
  also have "\<dots> = map (map (\<lambda>r. map2 g (h r) w)) d"
    using assms(2) by (auto simp add: map2_replicate_right o_def intro!: map_cong)
  finally show ?thesis .
qed

lemma wf3_rows:
  assumes "wf3 x" "tsize x = [b, t, f]"
  shows "length (data x) = b" "\<forall>m \<in> set (data x). length m = t"
    "\<forall>m \<in> set (data x). \<forall>r \<in> set m. length r = f"
  using assms by (auto simp add: wf3_def list_all_iff)

lemma LayerNorm1d_forward_plain:
  assumes wf: "wf3 inputs" and sz: "tsize inputs = [b, t, f]" and na: "\<not> ln_affine self"
  shows "LayerNorm1d_forward self inputs =
           Inr (inputs\<lparr>data := map (map (norm_row (ln_eps self))) (data inputs)\<rparr>)"
  using na
  by (simp only: LayerNorm1d_forward_def sz list.case Let_def
      centered_eq[OF wf3_rows(3)[OF wf sz]] output_eq[OF wf3_rows(3)[OF wf sz]]) simp

lemma LayerNorm1d_forward_affine:
  assumes wf: "wf3 inputs" and sz: "tsize inputs = [b, t, f]" and af: "ln_affine self"
    and w: "ln_weight self = Some w" "length w = f"
    and bs: "ln_bias self = Some bs" "length bs = f"
  shows "LayerNorm1d_forward self inputs =
           Inr (inputs\<lparr>data := map (map (\<lambda>r. affine_row w bs (norm_row (ln_eps self) r))) (data inputs)\<rparr>)"
proof -
  note r = wf3_rows[OF wf sz]
  have m: "zip3 (*) (map (map (norm_row (ln_eps self))) (data inputs)) (replicate b (replicate t w))
      = map (map (\<lambda>r. map2 (*) (norm_row (ln_eps self) r) w)) (data inputs)"
    by (rule zip3_replicate[OF r(1) r(2)])
  have a: "zip3 (+) (map (map (\<lambda>r. map2 (*) (norm_row (ln_eps self) r) w)) (data inputs))
              (replicate b (replicate t bs))
      = map (map (\<lambda>r. map2 (+) (map2 (*) (norm_row (ln_eps self) r) w) bs)) (data inputs)"
    by (rule zip3_replicate[OF r(1) r(2)])
  show ?thesis
    using af w bs
    by (simp only: LayerNorm1d_forward_def sz list.case Let_def centered_eq[OF r(3)] output_eq[OF r(3)])
       (simp add: view_1_1_expand_as_def and_then_def m a affine_row_def)
qed

lemma norm_row_nth: "k < length r \<Longrightarrow> norm_row eps r ! k = normalized eps r k"
  by (simp add: norm_row_def normalized_def)

lemma affine_row_nth:
  "k < length r \<Longrightarrow> length w = length r \<Longrightarrow> length bs = length r \<Longrightarrow>
   affine_row w bs r ! k = r ! k * w ! k + bs ! k"
  by (simp add: affine_row_def)

lemma biased_variance_nonneg: "0 \<le> biased_variance r"
  unfolding biased_variance_def
  by (intro divide_nonneg_nonneg sum_list_nonneg) auto

text \<open>
  Claim C2. For a well-formed input of size \<open>(b, t, f)\<close> and a module whose
  parameters fit \<open>f\<close> features, \<open>forward\<close> returns a well-formed tensor of the same
  size whose element \<open>k\<close> at position \<open>(i, j)\<close> is
  \<open>(x - m) / sqrt (mean ((x - m)^2) + eps)\<close>, for \<open>m\<close> the mean of the row and the
  biased variance; with \<open>affine\<close>, times \<open>weight ! k\<close> plus \<open>bias ! k\<close>. For a
  positive \<open>eps\<close> the divisor is positive.
\<close>

theorem LayerNorm1d_forward_normalizes:
  assumes wf: "wf3 inputs" and sz: "tsize inputs = [b, t, f]" and fit: "params_fit self f"
  shows "\<exists>out. LayerNorm1d_forward self inputs = Inr out
           \<and> tsize out = [b, t, f] \<and> is_cuda out = is_cuda inputs \<and> wf3 out
           \<and> (\<forall>i<b. \<forall>j<t. \<forall>k<f.
                 data out ! i ! j ! k =
                   (if ln_affine self
                    then normalized (ln_eps self) (data inputs ! i ! j) k * the (ln_weight self) ! k
                         + the (ln_bias self) ! k
                    else normalized (ln_eps self) (data inputs ! i ! j) k))
           \<and> (0 < ln_eps self \<longrightarrow>
                (\<forall>i<b. \<forall>j<t. 0 < sqrt (biased_variance (data inputs ! i ! j) + ln_eps self)))"
proof -
  note r = wf3_rows[OF wf sz]
  have len: "\<And>i j. i < b \<Longrightarrow> j < t \<Longrightarrow> length (data inputs ! i ! j) = f"
    using r by (metis nth_mem)
  have pos: "0 < ln_eps self \<longrightarrow>
                (\<forall>i<b. \<forall>j<t. 0 < sqrt (biased_variance (data inputs ! i ! j) + ln_eps self))"
    using biased_variance_nonneg by (simp add: add_nonneg_pos)
  show ?thesis
  proof (cases "ln_affine self")
    case False
    let ?out = "inputs\<lparr>data := map (map (norm_row (ln_eps self))) (data inputs)\<rparr>"
    have v: "LayerNorm1d_forward self inputs = Inr ?out"
      by (rule LayerNorm1d_forward_plain[OF wf sz False])
    have w: "wf3 ?out"
      using r by (simp add: wf3_def sz list_all_iff norm_row_def)
    have e: "\<forall>i<b. \<forall>j<t. \<forall>k<f. data ?out ! i ! j ! k = normalized (ln_eps self) (data inputs ! i ! j) k"
      using r len by (simp add: norm_row_nth)
    show ?thesis using v w e pos False by (simp add: sz)
  next
    case True
    then obtain w bs where p: "ln_weight self = Some w" "length w = f" "ln_bias self = Some bs" "length bs = f"
      using fit by (auto simp add: params_fit_def split: option.splits)
    let ?out = "inputs\<lparr>data := map (map (\<lambda>r. affine_row w bs (norm_row (ln_eps self) r))) (data inputs)\<rparr>"
    have v: "LayerNorm1d_forward self inputs = Inr ?out"
      by (rule LayerNorm1d_forward_affine[OF wf sz True p])
    have w: "wf3 ?out"
      using r p by (simp add: wf3_def sz list_all_iff norm_row_def affine_row_def)
    have e: "\<forall>i<b. \<forall>j<t. \<forall>k<f. data ?out ! i ! j ! k =
        normalized (ln_eps self) (data inputs ! i ! j) k * w ! k + bs ! k"
      using r len p by (simp add: affine_row_nth norm_row_nth norm_row_def[THEN arg_cong, of length] )
    show ?thesis using v w e pos True p by (simp add: sz)
  qed
qed

text \<open>
  The theorem at the row \<open>[1, 3]\<close> with \<open>eps = 3\<close>, weight \<open>[2, 3]\<close> and bias
  \<open>[1, -1]\<close>: mean 2, variance 1, divisor 2.
\<close>

theorem LayerNorm1d_forward_normalizes_witness:
  "\<exists>out. LayerNorm1d_forward layer_norm_example x_1_1_2 = Inr out
      \<and> tsize out = [1, 1, 2] \<and> wf3 out
      \<and> data out ! 0 ! 0 ! 0 = 0 \<and> data out ! 0 ! 0 ! 1 = 1 / 2"
proof -
  have a: "wf3 x_1_1_2" by (simp add: wf3_def x_1_1_2_def)
  have b: "tsize x_1_1_2 = [1, 1, 2]" by (simp add: x_1_1_2_def)
  have c: "params_fit layer_norm_example 2" by (simp add: params_fit_def layer_norm_example_def)
  have n0: "normalized 3 [1, 3] 0 = - 1 / 2" 
    by (simp add: normalized_def row_mean_def biased_variance_def)
  have n1: "normalized 3 [1, 3] 1 = 1 / 2" 
    by (simp add: normalized_def row_mean_def biased_variance_def)
  from LayerNorm1d_forward_normalizes[OF a b c]
  obtain out where o: "LayerNorm1d_forward layer_norm_example x_1_1_2 = Inr out
      \<and> tsize out = [1, 1, 2] \<and> is_cuda out = is_cuda x_1_1_2 \<and> wf3 out
      \<and> (\<forall>i<1. \<forall>j<1. \<forall>k<2. data out ! i ! j ! k =
         (if ln_affine layer_norm_example
          then normalized (ln_eps layer_norm_example) (data x_1_1_2 ! i ! j) k * the (ln_weight layer_norm_example) ! k
               + the (ln_bias layer_norm_example) ! k
          else normalized (ln_eps layer_norm_example) (data x_1_1_2 ! i ! j) k))
      \<and> (0 < ln_eps layer_norm_example \<longrightarrow>
            (\<forall>i<1. \<forall>j<1. 0 < sqrt (biased_variance (data x_1_1_2 ! i ! j) + ln_eps layer_norm_example)))"
    by (rule exE)
  note el = o[THEN conjunct2, THEN conjunct2, THEN conjunct2, THEN conjunct2, THEN conjunct1, rule_format]
  have e0: "data out ! 0 ! 0 ! 0 = 0"
    using el[of 0 0 0] n0 by (simp add: layer_norm_example_def x_1_1_2_def)
  have e1: "data out ! 0 ! 0 ! 1 = 1 / 2"
    using el[of 0 0 1] n1 by (simp add: layer_norm_example_def x_1_1_2_def)
  show ?thesis using o e0 e1 by (intro exI[of _ out]) simp
qed

subsection \<open>Weight tying\<close>

lemma decoder_init_tied:
  assumes "TransformerAttentionDecoder_init init PAD st v h e nl nh dp il ms True wn = (d, st1)"
  shows "emb_weight (dec_embedder d) = lin_weight (dec_classifier d)"
    and "lin_weight (dec_classifier d) = Suc (next_ref st)"
    and "read_param st1 (lin_weight (dec_classifier d)) = Some (init v h)"
  using assms
  by (auto simp add: TransformerAttentionDecoder_init_def nn_Embedding_def nn_Linear_def alloc_def
      read_param_def Let_def split: prod.splits)

text \<open>
  Without \<open>tie_embedding\<close> the two weights of a decoder are different parameters.
\<close>

lemma decoder_init_untied:
  assumes "TransformerAttentionDecoder_init init PAD st v h e nl nh dp il ms False wn = (d, st1)"
  shows "emb_weight (dec_embedder d) \<noteq> lin_weight (dec_classifier d)"
  using assms
  by (auto simp add: TransformerAttentionDecoder_init_def nn_Embedding_def nn_Linear_def alloc_def
      read_param_def Let_def split: prod.splits)

lemma decoder_init_classifier:
  assumes "TransformerAttentionDecoder_init init PAD st v h e nl nh dp il ms tie wn = (d, st1)"
  shows "lin_weight (dec_classifier d) = Suc (next_ref st)"
    and "tie \<Longrightarrow> emb_weight (dec_embedder d) = lin_weight (dec_classifier d)"
    and "\<not> tie \<Longrightarrow> emb_weight (dec_embedder d) = next_ref st"
  using assms
  by (auto simp add: TransformerAttentionDecoder_init_def nn_Embedding_def nn_Linear_def alloc_def
      read_param_def Let_def split: prod.splits if_splits)

lemma read_write_same: "read_param (write_param st r x) r = Some x"
  by (simp add: read_param_def write_param_def)

lemma transformer_init_tied:
  assumes "Transformer_init init PAD st v h e nl nh il dp True encoder decoder wn = Inr (m, st2)"
  shows "emb_weight (enc_embedder (tr_encoder m)) = lin_weight (dec_classifier (tr_decoder m))"
    and "setdefault (kw_tie_embedding (case decoder of Some d \<Rightarrow> d | None \<Rightarrow> empty_kwargs)) True \<Longrightarrow>
         emb_weight (dec_embedder (tr_decoder m)) = lin_weight (dec_classifier (tr_decoder m))"
  using assms
  by (auto simp add: Transformer_init_def Let_def split: prod.splits if_splits dest: decoder_init_classifier(2))

text \<open>
  Claim C1, as amended. After the construction of a decoder with
  \<open>tie_embedding=True\<close> the weight of the embedder and the weight of the
  classifier are one reference, to a parameter of the store: an update through
  either is read through the other. After the
  construction of a \<open>Transformer\<close> with \<open>tie_embedding=True\<close> the weight of the
  encoder's embedder is the reference of the decoder's classifier as well, and so is
  the weight of the decoder's embedder unless the \<open>decoder\<close> dictionary overrides
  \<open>tie_embedding\<close> with false.
\<close>

theorem weight_tying_shares_parameter:
  "(TransformerAttentionDecoder_init init PAD st v h e nl nh dp il ms True wn = (d, st1) \<longrightarrow>
      emb_weight (dec_embedder d) = lin_weight (dec_classifier d)
    \<and> read_param st1 (lin_weight (dec_classifier d)) = Some (init v h)
    \<and> (\<forall>x. read_param (write_param st1 (emb_weight (dec_embedder d)) x) (lin_weight (dec_classifier d)) = Some x)
    \<and> (\<forall>x. read_param (write_param st1 (lin_weight (dec_classifier d)) x) (emb_weight (dec_embedder d)) = Some x))
   \<and> (Transformer_init init PAD st v h e nl nh il dp True encoder decoder wn = Inr (m, st2) \<longrightarrow>
      emb_weight (enc_embedder (tr_encoder m)) = lin_weight (dec_classifier (tr_decoder m))
    \<and> (\<forall>x. read_param (write_param st2 (lin_weight (dec_classifier (tr_decoder m))) x)
              (emb_weight (enc_embedder (tr_encoder m))) = Some x)
    \<and> (\<forall>x. read_param (write_param st2 (emb_weight (enc_embedder (tr_encoder m))) x)
              (lin_weight (dec_classifier (tr_decoder m))) = Some x)
    \<and> (setdefault (kw_tie_embedding (case decoder of Some d \<Rightarrow> d | None \<Rightarrow> empty_kwargs)) True \<longrightarrow>
          emb_weight (dec_embedder (tr_decoder m)) = lin_weight (dec_classifier (tr_decoder m))
        \<and> (\<forall>x. read_param (write_param st2 (emb_weight (enc_embedder (tr_encoder m))) x)
              (emb_weight (dec_embedder (tr_decoder m))) = Some x)))"
proof (intro conjI impI)
  assume a: "TransformerAttentionDecoder_init init PAD st v h e nl nh dp il ms True wn = (d, st1)"
  show t: "emb_weight (dec_embedder d) = lin_weight (dec_classifier d)"
    by (rule decoder_init_tied(1)[OF a])
  show "read_param st1 (lin_weight (dec_classifier d)) = Some (init v h)"
    by (rule decoder_init_tied(3)[OF a])
  show "\<forall>x. read_param (write_param st1 (emb_weight (dec_embedder d)) x) (lin_weight (dec_classifier d)) = Some x"
    by (simp add: t read_write_same)
  show "\<forall>x. read_param (write_param st1 (lin_weight (dec_classifier d)) x) (emb_weight (dec_embedder d)) = Some x"
    by (simp add: t read_write_same)
next
  assume a: "Transformer_init init PAD st v h e nl nh il dp True encoder decoder wn = Inr (m, st2)"
  show t: "emb_weight (enc_embedder (tr_encoder m)) = lin_weight (dec_classifier (tr_decoder m))"
    by (rule transformer_init_tied(1)[OF a])
  show "\<forall>x. read_param (write_param st2 (lin_weight (dec_classifier (tr_decoder m))) x)
              (emb_weight (enc_embedder (tr_encoder m))) = Some x"
    by (simp add: t read_write_same)
  show "\<forall>x. read_param (write_param st2 (emb_weight (enc_embedder (tr_encoder m))) x)
              (lin_weight (dec_classifier (tr_decoder m))) = Some x"
    by (simp add: t read_write_same)
next
  assume a: "Transformer_init init PAD st v h e nl nh il dp True encoder decoder wn = Inr (m, st2)"
    and b: "setdefault (kw_tie_embedding (case decoder of Some d \<Rightarrow> d | None \<Rightarrow> empty_kwargs)) True"
  show t: "emb_weight (dec_embedder (tr_decoder m)) = lin_weight (dec_classifier (tr_decoder m))"
    by (rule transformer_init_tied(2)[OF a b])
  show "\<forall>x. read_param (write_param st2 (emb_weight (enc_embedder (tr_encoder m))) x)
              (emb_weight (dec_embedder (tr_decoder m))) = Some x"
    by (simp add: t transformer_init_tied(1)[OF a] read_write_same)
qed

lemma Transformer_init_returns:
  assumes "kw_tie_embedding (case encoder of Some e \<Rightarrow> e | None \<Rightarrow> empty_kwargs) = None"
  shows "\<exists>m st2. Transformer_init init PAD st v h e nl nh il dp tie encoder decoder wn = Inr (m, st2)"
  using assms by (simp add: Transformer_init_def Let_def split: prod.splits)

text \<open>
  The theorem at a decoder and a model of vocabulary 3, hidden size 2 and one layer,
  built in the empty store.
\<close>

theorem weight_tying_shares_parameter_witness:
  "emb_weight (dec_embedder (fst (TransformerAttentionDecoder_init zero_init 0 empty_store 3 2 None 1 1 0 4 (Some 0) True False)))
     = lin_weight (dec_classifier (fst (TransformerAttentionDecoder_init zero_init 0 empty_store 3 2 None 1 1 0 4 (Some 0) True False)))
   \<and> lin_weight (dec_classifier (fst (TransformerAttentionDecoder_init zero_init 0 empty_store 3 2 None 1 1 0 4 (Some 0) True False))) = 1
   \<and> (\<exists>m st2. Transformer_init zero_init 0 empty_store 3 2 None 1 1 4 0 True None None False = Inr (m, st2)
        \<and> emb_weight (enc_embedder (tr_encoder m)) = lin_weight (dec_classifier (tr_decoder m))
        \<and> emb_weight (dec_embedder (tr_decoder m)) = lin_weight (dec_classifier (tr_decoder m))
        \<and> lin_weight (dec_classifier (tr_decoder m)) = 2
        \<and> read_param (write_param st2 (emb_weight (enc_embedder (tr_encoder m))) [[1]])
              (emb_weight (dec_embedder (tr_decoder m))) = Some [[1]])"
proof -
  obtain d st1 where d: "TransformerAttentionDecoder_init zero_init 0 empty_store 3 2 None 1 1 0 4 (Some 0) True False = (d, st1)"
    by (cases "TransformerAttentionDecoder_init zero_init 0 empty_store 3 2 None 1 1 0 4 (Some 0) True False")
  have d1: "lin_weight (dec_classifier d) = 1"
    using d by (auto simp add: TransformerAttentionDecoder_init_def nn_Embedding_def nn_Linear_def alloc_def
      Let_def empty_store_def split: prod.splits)
  obtain m st2 where m: "Transformer_init zero_init 0 empty_store 3 2 None 1 1 4 0 True None None False = Inr (m, st2)"
    using Transformer_init_returns[of None zero_init 0 empty_store 3 2 None 1 1 4 0 True None False]
    by (auto simp add: empty_kwargs_def)
  have m1: "lin_weight (dec_classifier (tr_decoder m)) = 2"
    using m by (auto simp add: Transformer_init_def TransformerAttentionEncoder_init_def
      TransformerAttentionDecoder_init_def nn_Embedding_def nn_Linear_def alloc_def
      Let_def empty_store_def empty_kwargs_def setdefault_def split: prod.splits)
  have s: "setdefault (kw_tie_embedding (case None of Some d \<Rightarrow> d | None \<Rightarrow> empty_kwargs)) True"
    by (simp add: setdefault_def empty_kwargs_def)
  show ?thesis
    using weight_tying_shares_parameter[of zero_init 0 empty_store 3 2 None 1 1 0 4 "Some 0" False d st1 None None m st2]
      d d1 m m1 s
    by (simp add: read_write_same)
qed

text \<open>
  Claim C1 as stated fails for a model built with \<open>tie_embedding=True\<close> whose
  decoder dictionary sets \<open>tie_embedding\<close> to false: the construction returns, the
  encoder's embedder has the classifier's weight (reference 2), the decoder's embedder
  keeps its own (reference 1), and an update of the shared weight is not read through
  the decoder's embedder.
\<close>

theorem tied_transformer_untied_decoder:
  "\<not> isl example_untied_model
   \<and> emb_weight (enc_embedder (tr_encoder (fst (projr example_untied_model)))) = 2
   \<and> lin_weight (dec_classifier (tr_decoder (fst (projr example_untied_model)))) = 2
   \<and> emb_weight (dec_embedder (tr_decoder (fst (projr example_untied_model)))) = 1
   \<and> read_param (write_param (snd (projr example_untied_model)) 2 [[1]]) 2 = Some [[1]]
   \<and> read_param (write_param (snd (projr example_untied_model)) 2 [[1]]) 1 = Some (zero_init 3 2)
   \<and> zero_init 3 2 \<noteq> [[1]]"
proof -
  have k: "kw_tie_embedding (case None of Some e \<Rightarrow> e | None \<Rightarrow> empty_kwargs) = None"
    by (simp add: empty_kwargs_def)
  from Transformer_init_returns[OF k, of zero_init 0 empty_store 3 2 None 1 1 4 0 True
      "Some untied_decoder_kwargs" False]
  obtain m st2 where m: "example_untied_model = Inr (m, st2)"
    unfolding example_untied_model_def by blast
  have r: "emb_weight (enc_embedder (tr_encoder m)) = 2"
      "lin_weight (dec_classifier (tr_decoder m)) = 2"
      "emb_weight (dec_embedder (tr_decoder m)) = 1"
      "params st2 1 = Some (zero_init 3 2)"
    using m
    by (auto simp add: example_untied_model_def Transformer_init_def
        TransformerAttentionEncoder_init_def TransformerAttentionDecoder_init_def
        nn_Embedding_def nn_Linear_def alloc_def Let_def empty_store_def empty_kwargs_def
        untied_decoder_kwargs_def setdefault_def or_else_def split: prod.splits)
  have z: "zero_init 3 2 \<noteq> [[1]]" by (simp add: zero_init_def numeral_3_eq_3)
  show ?thesis
    using r z by (simp add: m read_param_def write_param_def)
qed

subsection \<open>DecoderBlock\<close>

lemma and_then_Inr:
  "and_then r f = Inr y \<longleftrightarrow> (\<exists>v. r = Inr v \<and> f v = Inr y)"
  by (cases r) (simp_all add: and_then_def)

lemma apply_lnorm_cases:
  "apply_lnorm (if \<not> wn then Some l else None) x = Inr y \<longleftrightarrow>
     (if wn then y = x else LayerNorm1d_forward l x = Inr y)"
  by (auto simp add: apply_lnorm_def)

lemma DecoderBlock_set_mask_fields:
  "db_lnorm1 (DecoderBlock_set_mask self m c) = db_lnorm1 self"
  "db_lnorm2 (DecoderBlock_set_mask self m c) = db_lnorm2 self"
  "db_lnorm3 (DecoderBlock_set_mask self m c) = db_lnorm3 self"
  "db_dropout (DecoderBlock_set_mask self m c) = db_dropout self"
  "db_fc (DecoderBlock_set_mask self m c) = db_fc self"
  "mha_causal (db_attention (DecoderBlock_set_mask self m c)) = mha_causal (db_attention self)"
  "mha_causal (db_masked_attention (DecoderBlock_set_mask self m c)) = mha_causal (db_masked_attention self)"
  by (simp_all add: DecoderBlock_set_mask_def set_mask_q_def set_mask_k_def Let_def split: option.splits)

lemma DecoderBlock_init_fields:
  "db_lnorm1 (DecoderBlock_init h nh il wn dp) = (if \<not> wn then Some (LayerNorm1d_default h) else None)"
  "db_lnorm2 (DecoderBlock_init h nh il wn dp) = (if \<not> wn then Some (LayerNorm1d_default h) else None)"
  "db_lnorm3 (DecoderBlock_init h nh il wn dp) = (if \<not> wn then Some (LayerNorm1d_default h) else None)"
  "db_dropout (DecoderBlock_init h nh il wn dp) = dp"
  "mha_causal (db_attention (DecoderBlock_init h nh il wn dp)) = False"
  "mha_causal (db_masked_attention (DecoderBlock_init h nh il wn dp)) = True"
  by (simp_all add: DecoderBlock_init_def MultiHeadAttention_init_def)

lemma DecoderBlock_forward_steps:
  assumes "DecoderBlock_forward ops self inputs context = Inr (y, attn_enc)"
  shows "\<exists>a1 s1 r1 x1 a2 r2 x2 f r3.
        attention_forward ops (db_masked_attention self) inputs inputs inputs = Inr (a1, s1)
      \<and> add_inplace ops (dropout_forward ops (db_dropout self) a1) inputs = Inr r1
      \<and> apply_lnorm (db_lnorm1 self) r1 = Inr x1
      \<and> attention_forward ops (db_attention self) x1 context context = Inr (a2, attn_enc)
      \<and> add_inplace ops (dropout_forward ops (db_dropout self) a2) x1 = Inr r2
      \<and> apply_lnorm (db_lnorm2 self) r2 = Inr x2
      \<and> fc_forward ops (db_fc self) x2 = Inr f
      \<and> add_inplace ops (dropout_forward ops (db_dropout self) f) x2 = Inr r3
      \<and> apply_lnorm (db_lnorm3 self) r3 = Inr y"
  using assms
  by (auto simp add: DecoderBlock_forward_def and_then_Inr split: prod.splits)

text \<open>
  Claim C4. In a block as \<open>__init__\<close> builds it (also after \<open>set_mask\<close>),
  \<open>masked_attention\<close> has \<open>causal=True\<close> and \<open>attention\<close> has \<open>causal=False\<close>. A
  forward pass that returns has run, in this order: the masked attention on the
  inputs as queries, keys and values; dropout and the addition of the inputs; the
  first layer norm unless \<open>weight_norm\<close>; the attention from that result to the
  context as keys and values, whose scores are returned; dropout, the residual
  addition and the second layer norm; the feed-forward stack; dropout, the residual
  addition and the third layer norm.
\<close>

theorem DecoderBlock_attention_order:
  assumes built: "self = DecoderBlock_init h nh il wn dp
                \<or> self = DecoderBlock_set_mask (DecoderBlock_init h nh il wn dp) m context_mask"
    and run: "DecoderBlock_forward ops self inputs context = Inr (y, attn_enc)"
  shows "mha_causal (db_masked_attention self) \<and> \<not> mha_causal (db_attention self)
       \<and> (\<exists>a1 s1 r1 x1 a2 r2 x2 f r3.
            attention_forward ops (db_masked_attention self) inputs inputs inputs = Inr (a1, s1)
          \<and> add_inplace ops (dropout_forward ops dp a1) inputs = Inr r1
          \<and> (if wn then x1 = r1 else LayerNorm1d_forward (LayerNorm1d_default h) r1 = Inr x1)
          \<and> attention_forward ops (db_attention self) x1 context context = Inr (a2, attn_enc)
          \<and> add_inplace ops (dropout_forward ops dp a2) x1 = Inr r2
          \<and> (if wn then x2 = r2 else LayerNorm1d_forward (LayerNorm1d_default h) r2 = Inr x2)
          \<and> fc_forward ops (db_fc self) x2 = Inr f
          \<and> add_inplace ops (dropout_forward ops dp f) x2 = Inr r3
          \<and> (if wn then y = r3 else LayerNorm1d_forward (LayerNorm1d_default h) r3 = Inr y))"
proof -
  have f: "db_lnorm1 self = (if \<not> wn then Some (LayerNorm1d_default h) else None)"
    "db_lnorm2 self = (if \<not> wn then Some (LayerNorm1d_default h) else None)"
    "db_lnorm3 self = (if \<not> wn then Some (LayerNorm1d_default h) else None)"
    "db_dropout self = dp"
    "mha_causal (db_attention self) = False"
    "mha_causal (db_masked_attention self) = True"
    using built by (auto simp add: DecoderBlock_set_mask_fields DecoderBlock_init_fields)
  from DecoderBlock_forward_steps[OF run]
  obtain a1 s1 r1 x1 a2 r2 x2 f' r3 where s:
      "attention_forward ops (db_masked_attention self) inputs inputs inputs = Inr (a1, s1)"
      "add_inplace ops (dropout_forward ops (db_dropout self) a1) inputs = Inr r1"
      "apply_lnorm (db_lnorm1 self) r1 = Inr x1"
      "attention_forward ops (db_attention self) x1 context context = Inr (a2, attn_enc)"
      "add_inplace ops (dropout_forward ops (db_dropout self) a2) x1 = Inr r2"
      "apply_lnorm (db_lnorm2 self) r2 = Inr x2"
      "fc_forward ops (db_fc self) x2 = Inr f'"
      "add_inplace ops (dropout_forward ops (db_dropout self) f') x2 = Inr r3"
      "apply_lnorm (db_lnorm3 self) r3 = Inr y"
    by blast
  have l1: "if wn then x1 = r1 else LayerNorm1d_forward (LayerNorm1d_default h) r1 = Inr x1"
    using s(3) unfolding f(1) apply_lnorm_cases by auto
  have l2: "if wn then x2 = r2 else LayerNorm1d_forward (LayerNorm1d_default h) r2 = Inr x2"
    using s(6) unfolding f(2) apply_lnorm_cases by auto
  have l3: "if wn then y = r3 else LayerNorm1d_forward (LayerNorm1d_default h) r3 = Inr y"
    using s(9) unfolding f(3) apply_lnorm_cases by auto
  show ?thesis
    using s(1,2,4,5,7,8) l1 l2 l3 unfolding f(4) by (simp only: f(5,6) simp_thms) blast
qed

lemma LayerNorm1d_forward_returns:
  assumes "tsize x = [b, t, f]" "params_fit l f"
  shows "\<exists>out. LayerNorm1d_forward l x = Inr out \<and> tsize out = [b, t, f]"
  using assms
  by (auto simp add: LayerNorm1d_forward_def Let_def params_fit_def view_1_1_expand_as_def
      and_then_def split: option.splits)

lemma params_fit_default: "params_fit (LayerNorm1d_default h) h"
  by (simp add: params_fit_def LayerNorm1d_default_def LayerNorm1d_init_def)

lemma apply_lnorm_returns:
  assumes "tsize x = [b, t, h]"
  shows "\<exists>out. apply_lnorm (if \<not> wn then Some (LayerNorm1d_default h) else None) x = Inr out
           \<and> tsize out = [b, t, h]"
  using assms LayerNorm1d_forward_returns[OF assms params_fit_default]
  by (simp add: apply_lnorm_def)

lemma example_add_returns:
  assumes "tsize a = s" "tsize b = s"
  shows "\<exists>out. add_inplace example_ops (dropout_forward example_ops p a) b = Inr out \<and> tsize out = s"
  using assms by (simp add: example_ops_def)

lemma example_DecoderBlock_forward_returns:
  assumes sz: "tsize inputs = [b, t, h]"
    and self: "db_lnorm1 self = (if \<not> wn then Some (LayerNorm1d_default h) else None)"
      "db_lnorm2 self = (if \<not> wn then Some (LayerNorm1d_default h) else None)"
      "db_lnorm3 self = (if \<not> wn then Some (LayerNorm1d_default h) else None)"
  shows "\<exists>y. DecoderBlock_forward example_ops self inputs context = Inr (y, context)"
proof -
  have a1: "attention_forward example_ops (db_masked_attention self) inputs inputs inputs = Inr (inputs, inputs)"
    by (simp add: example_ops_def)
  obtain r1 where r1: "add_inplace example_ops (dropout_forward example_ops (db_dropout self) inputs) inputs = Inr r1"
      "tsize r1 = [b, t, h]"
    using example_add_returns[OF sz sz] by blast
  obtain x1 where x1: "apply_lnorm (db_lnorm1 self) r1 = Inr x1" "tsize x1 = [b, t, h]"
    using apply_lnorm_returns[OF r1(2)] self(1) by metis
  have a2: "attention_forward example_ops (db_attention self) x1 context context = Inr (x1, context)"
    by (simp add: example_ops_def)
  obtain r2 where r2: "add_inplace example_ops (dropout_forward example_ops (db_dropout self) x1) x1 = Inr r2"
      "tsize r2 = [b, t, h]"
    using example_add_returns[OF x1(2) x1(2)] by blast
  obtain x2 where x2: "apply_lnorm (db_lnorm2 self) r2 = Inr x2" "tsize x2 = [b, t, h]"
    using apply_lnorm_returns[OF r2(2)] self(2) by metis
  have f: "fc_forward example_ops (db_fc self) x2 = Inr x2"
    by (simp add: example_ops_def)
  obtain r3 where r3: "add_inplace example_ops (dropout_forward example_ops (db_dropout self) x2) x2 = Inr r3"
      "tsize r3 = [b, t, h]"
    using example_add_returns[OF x2(2) x2(2)] by blast
  obtain y where y: "apply_lnorm (db_lnorm3 self) r3 = Inr y" "tsize y = [b, t, h]"
    using apply_lnorm_returns[OF r3(2)] self(3) by metis
  have "DecoderBlock_forward example_ops self inputs context = Inr (y, context)"
    by (simp add: DecoderBlock_forward_def and_then_def a1 r1 x1 a2 r2 x2 f r3 y)
  then show ?thesis by blast
qed

text \<open>
  The theorem at a block of hidden size 2 without \<open>weight_norm\<close>, run with the example
  operations on an input of size \<open>(1, 1, 2)\<close>.
\<close>

theorem DecoderBlock_attention_order_witness:
  "\<exists>y. DecoderBlock_forward example_ops (DecoderBlock_init 2 1 4 False 0) x_1_1_2 x_1_1_2 = Inr (y, x_1_1_2)
      \<and> mha_causal (db_masked_attention (DecoderBlock_init 2 1 4 False 0))
      \<and> \<not> mha_causal (db_attention (DecoderBlock_init 2 1 4 False 0))
      \<and> (\<exists>r3. LayerNorm1d_forward (LayerNorm1d_default 2) r3 = Inr y)"
proof -
  obtain y where y: "DecoderBlock_forward example_ops (DecoderBlock_init 2 1 4 False 0) x_1_1_2 x_1_1_2 = Inr (y, x_1_1_2)"
    using example_DecoderBlock_forward_returns[of x_1_1_2 1 1 2 "DecoderBlock_init 2 1 4 False 0" False x_1_1_2]
    by (auto simp add: x_1_1_2_def DecoderBlock_init_def)
  have b: "DecoderBlock_init 2 1 4 False 0 = DecoderBlock_init 2 1 4 False 0
         \<or> DecoderBlock_init 2 1 4 False 0 = DecoderBlock_set_mask (DecoderBlock_init 2 1 4 False 0) None None"
    by simp
  show ?thesis
    using DecoderBlock_attention_order[OF b y] y by auto
qed

subsection \<open>TransformerAttentionEncoder\<close>

lemma EncoderBlock_set_mask_masks:
  "mha_mask_q (eb_attention (EncoderBlock_set_mask self m)) = m"
  "mha_mask_k (eb_attention (EncoderBlock_set_mask self m)) = m"
  "mha_causal (eb_attention (EncoderBlock_set_mask self m)) = mha_causal (eb_attention self)"
  "eb_lnorm1 (EncoderBlock_set_mask self m) = eb_lnorm1 self"
  "eb_lnorm2 (EncoderBlock_set_mask self m) = eb_lnorm2 self"
  by (simp_all add: EncoderBlock_set_mask_def set_mask_q_def set_mask_k_def Let_def)

lemma encoder_blocks_loop_blocks:
  assumes "encoder_blocks_loop ops pm blocks x = Inr (y, blocks1)"
  shows "blocks1 = map (\<lambda>b. EncoderBlock_set_mask b pm) blocks"
  using assms
proof (induction blocks arbitrary: x y blocks1)
  case Nil
  then show ?case by simp
next
  case (Cons b bs)
  from Cons.prems obtain x1 y1 bs1 where
    s: "EncoderBlock_forward ops (EncoderBlock_set_mask b pm) x = Inr x1"
       "encoder_blocks_loop ops pm bs x1 = Inr (y1, bs1)"
       "y = y1" "blocks1 = EncoderBlock_set_mask b pm # bs1"
    by (auto simp add: and_then_Inr Let_def split: prod.splits)
  from Cons.IH[OF s(2)] s(4) show ?case by simp
qed

lemma encoder_blocks_loop_last:
  assumes "encoder_blocks_loop ops pm blocks x = Inr (y, blocks1)"
  shows "if blocks = [] then y = x
         else (\<exists>xin. EncoderBlock_forward ops (last blocks1) xin = Inr y)"
  using assms
proof (induction blocks arbitrary: x y blocks1)
  case Nil
  then show ?case by simp
next
  case (Cons b bs)
  from Cons.prems obtain x1 bs1 where
    s: "EncoderBlock_forward ops (EncoderBlock_set_mask b pm) x = Inr x1"
       "encoder_blocks_loop ops pm bs x1 = Inr (y, bs1)"
       "blocks1 = EncoderBlock_set_mask b pm # bs1"
    by (auto simp add: and_then_Inr Let_def split: prod.splits)
  show ?case
  proof (cases "bs = []")
    case True
    then have "y = x1" "bs1 = []" using s(2) by simp_all
    then show ?thesis using s(1,3) by auto
  next
    case False
    then have ne: "bs1 \<noteq> []" using encoder_blocks_loop_blocks[OF s(2)] by simp
    from Cons.IH[OF s(2)] False obtain xin where "EncoderBlock_forward ops (last bs1) xin = Inr y"
      by auto
    then show ?thesis using s(3) ne by auto
  qed
qed

text \<open>
  Claim C5. When the forward pass of the encoder returns, the mask of the state is
  \<open>inputs.eq(mask_symbol)\<close>, or \<open>None\<close> when \<open>mask_symbol\<close> is \<open>None\<close>;
  \<open>batch_first\<close> is true; every block has had \<open>set_mask\<close> with that mask, so its
  attention has it as query mask and as key mask; and the outputs are what the loop
  over the blocks returns from the embedded inputs: the output of the last block.
\<close>

theorem TransformerAttentionEncoder_forward_mask:
  assumes run: "TransformerAttentionEncoder_forward ops st self inputs = Inr (state, self1)"
  shows "st_mask state =
           (case enc_mask_symbol self of Some symbol \<Rightarrow> Some (tensor_eq inputs symbol) | None \<Rightarrow> None)
       \<and> st_batch_first state
       \<and> enc_blocks self1 = map (\<lambda>b. EncoderBlock_set_mask b (st_mask state)) (enc_blocks self)
       \<and> (\<forall>b \<in> set (enc_blocks self1).
             mha_mask_q (eb_attention b) = st_mask state \<and> mha_mask_k (eb_attention b) = st_mask state)
       \<and> (\<exists>x. embed_inputs ops st (enc_embedder self) (enc_scale_embedding self) (enc_dropout self) inputs = Inr x
              \<and> encoder_blocks_loop ops (st_mask state) (enc_blocks self) x
                   = Inr (st_outputs state, enc_blocks self1)
              \<and> (if enc_blocks self = [] then st_outputs state = x
                  else (\<exists>xin. EncoderBlock_forward ops (last (enc_blocks self1)) xin
                                = Inr (st_outputs state))))"
proof -
  let ?pm = "padding_mask_of (enc_mask_symbol self) inputs"
  from run obtain x y blocks1 where
    s: "embed_inputs ops st (enc_embedder self) (enc_scale_embedding self) (enc_dropout self) inputs = Inr x"
       "encoder_blocks_loop ops ?pm (enc_blocks self) x = Inr (y, blocks1)"
       "state = \<lparr>st_outputs = y, st_mask = ?pm, st_batch_first = True\<rparr>"
       "self1 = self\<lparr>enc_blocks := blocks1\<rparr>"
    by (auto simp add: TransformerAttentionEncoder_forward_def and_then_Inr Let_def split: prod.splits)
  have m: "st_mask state = ?pm" and o: "st_outputs state = y" and bf: "st_batch_first state"
    and bl: "enc_blocks self1 = blocks1"
    using s(3,4) by simp_all
  have a: "st_mask state =
           (case enc_mask_symbol self of Some symbol \<Rightarrow> Some (tensor_eq inputs symbol) | None \<Rightarrow> None)"
    by (simp add: m padding_mask_of_def)
  have b: "enc_blocks self1 = map (\<lambda>b. EncoderBlock_set_mask b (st_mask state)) (enc_blocks self)"
    using encoder_blocks_loop_blocks[OF s(2)] by (simp add: m bl)
  have c: "\<forall>b \<in> set (enc_blocks self1).
             mha_mask_q (eb_attention b) = st_mask state \<and> mha_mask_k (eb_attention b) = st_mask state"
    by (auto simp add: b EncoderBlock_set_mask_masks)
  have d: "encoder_blocks_loop ops (st_mask state) (enc_blocks self) x
                   = Inr (st_outputs state, enc_blocks self1)"
    using s(2) by (simp add: m o bl)
  have e: "if enc_blocks self = [] then st_outputs state = x
                  else (\<exists>xin. EncoderBlock_forward ops (last (enc_blocks self1)) xin
                                = Inr (st_outputs state))"
    using encoder_blocks_loop_last[OF s(2)] by (simp add: o bl)
  show ?thesis using a bf b c s(1) d e by blast
qed

lemma example_embed_inputs_returns:
  assumes sz: "tsize inputs = [b, t]" and dim: "emb_embedding_dim embedder = h"
    and ev: "even h" and ge: "4 \<le> h"
  shows "\<exists>x. embed_inputs example_ops st embedder scale dp inputs = Inr x \<and> tsize x = [b, t, h]"
proof -
  obtain x0 where e: "embedding_forward example_ops st embedder inputs = Inr x0"
      and s0: "tsize x0 = [b, t, h]"
    by (simp add: example_ops_def sz dim)
  have s1: "tsize (mul_scalar x0 scale) = [b, t, h]"
    by (simp add: mul_scalar_def s0)
  have ne: "h \<noteq> 2" using ge by simp
  have p: "0 < (10000::real) / 1" by simp
  obtain pe where pe: "positional_embedding (mul_scalar x0 scale) 1 10000 = Inr pe"
      and sp: "tsize pe = [b, t, h]"
    using positional_embedding_value[OF s1 ev ne p] by simp
  obtain x2 where a: "add_inplace example_ops (mul_scalar x0 scale) pe = Inr x2"
      and s2: "tsize x2 = [b, t, h]"
    by (simp add: example_ops_def s1 sp)
  have d: "tsize (dropout_forward example_ops dp x2) = [b, t, h]"
    by (simp add: example_ops_def s2)
  have "embed_inputs example_ops st embedder scale dp inputs = Inr (dropout_forward example_ops dp x2)"
    by (simp add: embed_inputs_def and_then_def e Let_def pe a)
  then show ?thesis using d by blast
qed

lemma example_EncoderBlock_forward_returns:
  assumes sz: "tsize inputs = [b, t, h]"
    and self: "eb_lnorm1 self = (if \<not> wn then Some (LayerNorm1d_default h) else None)"
      "eb_lnorm2 self = (if \<not> wn then Some (LayerNorm1d_default h) else None)"
  shows "\<exists>y. EncoderBlock_forward example_ops self inputs = Inr y \<and> tsize y = [b, t, h]"
proof -
  have a1: "attention_forward example_ops (eb_attention self) inputs inputs inputs = Inr (inputs, inputs)"
    by (simp add: example_ops_def)
  obtain r1 where r1: "add_inplace example_ops (dropout_forward example_ops (eb_dropout self) inputs) inputs = Inr r1"
      "tsize r1 = [b, t, h]"
    using example_add_returns[OF sz sz] by blast
  obtain x1 where x1: "apply_lnorm (eb_lnorm1 self) r1 = Inr x1" "tsize x1 = [b, t, h]"
    using apply_lnorm_returns[OF r1(2)] self(1) by metis
  have f: "fc_forward example_ops (eb_fc self) x1 = Inr x1"
    by (simp add: example_ops_def)
  obtain r2 where r2: "add_inplace example_ops (dropout_forward example_ops (eb_dropout self) x1) x1 = Inr r2"
      "tsize r2 = [b, t, h]"
    using example_add_returns[OF x1(2) x1(2)] by blast
  obtain y where y: "apply_lnorm (eb_lnorm2 self) r2 = Inr y" "tsize y = [b, t, h]"
    using apply_lnorm_returns[OF r2(2)] self(2) by metis
  have "EncoderBlock_forward example_ops self inputs = Inr y"
    by (simp add: EncoderBlock_forward_def and_then_def a1 r1 x1 f r2 y)
  then show ?thesis using y(2) by blast
qed

lemma example_encoder_blocks_loop_returns:
  assumes "tsize x = [b, t, h]"
    and "\<forall>blk \<in> set blocks.
           eb_lnorm1 blk = (if \<not> wn then Some (LayerNorm1d_default h) else None)
         \<and> eb_lnorm2 blk = (if \<not> wn then Some (LayerNorm1d_default h) else None)"
  shows "\<exists>r. encoder_blocks_loop example_ops pm blocks x = Inr r"
  using assms
proof (induction blocks arbitrary: x)
  case Nil
  then show ?case by simp
next
  case (Cons blk blocks)
  have l: "eb_lnorm1 (EncoderBlock_set_mask blk pm) = (if \<not> wn then Some (LayerNorm1d_default h) else None)"
      "eb_lnorm2 (EncoderBlock_set_mask blk pm) = (if \<not> wn then Some (LayerNorm1d_default h) else None)"
    using Cons.prems(2) by (simp_all add: EncoderBlock_set_mask_masks)
  obtain x1 where x1: "EncoderBlock_forward example_ops (EncoderBlock_set_mask blk pm) x = Inr x1"
      "tsize x1 = [b, t, h]"
    using example_EncoderBlock_forward_returns[OF Cons.prems(1) l] by blast
  have p2: "\<forall>blk \<in> set blocks.
           eb_lnorm1 blk = (if \<not> wn then Some (LayerNorm1d_default h) else None)
         \<and> eb_lnorm2 blk = (if \<not> wn then Some (LayerNorm1d_default h) else None)"
    using Cons.prems(2) by simp
  from Cons.IH[OF x1(2) p2]
  obtain r where r: "encoder_blocks_loop example_ops pm blocks x1 = Inr r"
    by (rule exE)
  have "encoder_blocks_loop example_ops pm (blk # blocks) x
      = Inr (fst r, EncoderBlock_set_mask blk pm # snd r)"
    by (simp add: x1(1) r and_then_def Let_def split_beta)
  then show ?case by (rule exI)
qed

lemma example_encoder_fields:
  "enc_mask_symbol example_encoder = Some 0"
  "emb_embedding_dim (enc_embedder example_encoder) = 4"
  "enc_blocks example_encoder = [EncoderBlock_init 4 1 8 False 0, EncoderBlock_init 4 1 8 False 0]"
  by (simp_all add: example_encoder_def TransformerAttentionEncoder_init_def nn_Embedding_def
      alloc_def Let_def or_else_def upt_0_2)

text \<open>
  The theorem at an encoder of two blocks, hidden size 4 and mask symbol 0, on the
  tokens \<open>[[1, 0]]\<close>: the mask is \<open>[[False, True]]\<close>.
\<close>

theorem TransformerAttentionEncoder_forward_mask_witness:
  "\<exists>state self1.
      TransformerAttentionEncoder_forward example_ops example_encoder_store example_encoder tokens_1_2
        = Inr (state, self1)
    \<and> st_mask state = Some \<lparr>tsize = [1, 2], is_cuda = False, data = [[False, True]]\<rparr>
    \<and> st_batch_first state
    \<and> map (\<lambda>b. mha_mask_q (eb_attention b)) (enc_blocks self1) = [st_mask state, st_mask state]
    \<and> map (\<lambda>b. mha_mask_k (eb_attention b)) (enc_blocks self1) = [st_mask state, st_mask state]"
proof -
  have sz: "tsize tokens_1_2 = [1, 2]" by (simp add: tokens_1_2_def)
  have ev: "even (4::nat)" and ge: "4 \<le> (4::nat)" by simp_all
  from example_embed_inputs_returns[OF sz example_encoder_fields(2) ev ge,
      where st = example_encoder_store and scale = "enc_scale_embedding example_encoder"
        and dp = "enc_dropout example_encoder"]
  obtain x where x0: "embed_inputs example_ops example_encoder_store (enc_embedder example_encoder)
        (enc_scale_embedding example_encoder) (enc_dropout example_encoder) tokens_1_2 = Inr x
      \<and> tsize x = [1, 2, 4]"
    by (rule exE)
  note x = x0[THEN conjunct1] x0[THEN conjunct2]
  have l: "\<forall>blk \<in> set (enc_blocks example_encoder).
           eb_lnorm1 blk = (if \<not> False then Some (LayerNorm1d_default 4) else None)
         \<and> eb_lnorm2 blk = (if \<not> False then Some (LayerNorm1d_default 4) else None)"
    by (simp add: example_encoder_fields(3) EncoderBlock_init_def)
  from example_encoder_blocks_loop_returns[OF x(2) l,
      where pm = "padding_mask_of (enc_mask_symbol example_encoder) tokens_1_2"]
  obtain r where r: "encoder_blocks_loop example_ops (padding_mask_of (enc_mask_symbol example_encoder) tokens_1_2)
        (enc_blocks example_encoder) x = Inr r"
    by (rule exE)
  define state where "state = \<lparr>st_outputs = fst r,
      st_mask = padding_mask_of (enc_mask_symbol example_encoder) tokens_1_2, st_batch_first = True\<rparr>"
  define self1 where "self1 = example_encoder\<lparr>enc_blocks := snd r\<rparr>"
  have run:
    "TransformerAttentionEncoder_forward example_ops example_encoder_store example_encoder tokens_1_2
        = Inr (state, self1)"
    unfolding state_def self1_def
    by (simp add: TransformerAttentionEncoder_forward_def and_then_def x(1) r Let_def split_beta)
  have m: "tensor_eq tokens_1_2 0 = \<lparr>tsize = [1, 2], is_cuda = False, data = [[False, True]]\<rparr>"
    by (simp add: tensor_eq_def tokens_1_2_def)
  note t = TransformerAttentionEncoder_forward_mask[OF run]
  have c1: "st_mask state = Some \<lparr>tsize = [1, 2], is_cuda = False, data = [[False, True]]\<rparr>"
    using t[THEN conjunct1] by (simp add: example_encoder_fields(1) m)
  have c2: "st_batch_first state"
    using t[THEN conjunct2, THEN conjunct1] .
  have c3: "enc_blocks self1 = map (\<lambda>b. EncoderBlock_set_mask b (st_mask state)) (enc_blocks example_encoder)"
    using t[THEN conjunct2, THEN conjunct2, THEN conjunct1] .
  have c4: "map (\<lambda>b. mha_mask_q (eb_attention b)) (enc_blocks self1) = [st_mask state, st_mask state]"
    by (simp add: c3 example_encoder_fields(3) EncoderBlock_set_mask_masks)
  have c5: "map (\<lambda>b. mha_mask_k (eb_attention b)) (enc_blocks self1) = [st_mask state, st_mask state]"
    by (simp add: c3 example_encoder_fields(3) EncoderBlock_set_mask_masks)
  show ?thesis
    using run c1 c2 c4 c5 by (intro exI[of _ state] exI[of _ self1] conjI)
qed

subsection \<open>WMT16_de_en\<close>

lemma WMT16_train:
  "WMT16_de_en_init mld_init load_data root_dir ''train'' tokenization num_symbols shared_vocab
       code_files vocab_files insert_start insert_end mark_language tokenizers moses_pretok flag
   = finish_init mld_init load_data flag
       (train_options root_dir tokenization num_symbols shared_vocab code_files vocab_files
          insert_start insert_end mark_language tokenizers moses_pretok)"
  by (simp add: WMT16_de_en_init_def finish_init_def train_options_def corpus_prefix_def
      and_then_def Let_def)

lemma WMT16_other:
  assumes "split \<noteq> ''train''"
    and "mld_init (train_options root_dir tokenization num_symbols shared_vocab code_files vocab_files
          insert_start insert_end mark_language tokenizers moses_pretok) = Inr train_data"
  shows "WMT16_de_en_init mld_init load_data root_dir split tokenization num_symbols shared_vocab
       code_files vocab_files insert_start insert_end mark_language tokenizers moses_pretok flag
   = (if split = ''dev'' \<or> split = ''test'' then
        finish_init mld_init load_data flag
         ((train_options root_dir tokenization num_symbols shared_vocab code_files vocab_files
            insert_start insert_end mark_language tokenizers moses_pretok)
          \<lparr>opt_prefix := corpus_prefix root_dir
               (if split = ''dev'' then ''newstest2014'' else ''newstest2016'') moses_pretok,
           opt_code_files := getattr_none train_data ''code_files'',
           opt_vocab_files := getattr_none train_data ''vocab_files'',
           opt_tokenizers := getattr_none train_data ''tokenizers''\<rparr>)
      else Inl UnboundLocalError)"
  using assms
  by (simp add: WMT16_de_en_init_def finish_init_def train_options_def corpus_prefix_def
      and_then_def Let_def)

lemma WMT16_other_fails:
  assumes "split \<noteq> ''train''"
    and "mld_init (train_options root_dir tokenization num_symbols shared_vocab code_files vocab_files
          insert_start insert_end mark_language tokenizers moses_pretok) = Inl e"
  shows "WMT16_de_en_init mld_init load_data root_dir split tokenization num_symbols shared_vocab
       code_files vocab_files insert_start insert_end mark_language tokenizers moses_pretok flag
   = Inl e"
  using assms
  by (simp add: WMT16_de_en_init_def finish_init_def train_options_def corpus_prefix_def
      and_then_def Let_def)

text \<open>
  Claim C6. The prefix of a corpus is \<open>{root}/{name}{pretok}.clean\<close>, with
  \<open>pretok\<close> \<open>.tok\<close> under \<open>moses_pretok\<close> and empty otherwise. For
  \<open>split='train'\<close> the dataset is built from the train options, whose prefix is
  that of \<open>train\<close>. For \<open>'dev'\<close> and \<open>'test'\<close>, once the dataset over the train
  options is built, the dataset is built from options with the prefix of
  \<open>newstest2014\<close> and \<open>newstest2016\<close>, whose tokenizers, code files and
  vocabulary files are the attributes of the train dataset (\<open>None\<close> for an attribute
  it does not have), and whose other entries are those of the train options.
\<close>

theorem WMT16_de_en_split_files:
  "corpus_prefix root_dir name moses_pretok =
     root_dir @ ''/'' @ name @ (if moses_pretok then ''.tok'' else []) @ ''.clean''
   \<and> opt_prefix (train_options root_dir tokenization num_symbols shared_vocab code_files vocab_files
          insert_start insert_end mark_language tokenizers moses_pretok)
       = root_dir @ ''/train'' @ (if moses_pretok then ''.tok'' else []) @ ''.clean''
   \<and> WMT16_de_en_init mld_init load_data root_dir ''train'' tokenization num_symbols shared_vocab
       code_files vocab_files insert_start insert_end mark_language tokenizers moses_pretok flag
     = finish_init mld_init load_data flag
         (train_options root_dir tokenization num_symbols shared_vocab code_files vocab_files
            insert_start insert_end mark_language tokenizers moses_pretok)
   \<and> (mld_init (train_options root_dir tokenization num_symbols shared_vocab code_files vocab_files
          insert_start insert_end mark_language tokenizers moses_pretok) = Inr train_data \<longrightarrow>
        WMT16_de_en_init mld_init load_data root_dir ''dev'' tokenization num_symbols shared_vocab
          code_files vocab_files insert_start insert_end mark_language tokenizers moses_pretok flag
        = finish_init mld_init load_data flag
           \<lparr>opt_prefix = root_dir @ ''/newstest2014'' @ (if moses_pretok then ''.tok'' else []) @ ''.clean'',
            opt_languages = [''en'', ''de''],
            opt_tokenization = tokenization, opt_num_symbols = num_symbols,
            opt_shared_vocab = shared_vocab,
            opt_code_files = (case train_data ''code_files'' of Some v \<Rightarrow> v | None \<Rightarrow> None),
            opt_vocab_files = (case train_data ''vocab_files'' of Some v \<Rightarrow> v | None \<Rightarrow> None),
            opt_insert_start = insert_start, opt_insert_end = insert_end,
            opt_mark_language = mark_language,
            opt_tokenizers = (case train_data ''tokenizers'' of Some v \<Rightarrow> v | None \<Rightarrow> None),
            opt_load_data = False\<rparr>
      \<and> WMT16_de_en_init mld_init load_data root_dir ''test'' tokenization num_symbols shared_vocab
          code_files vocab_files insert_start insert_end mark_language tokenizers moses_pretok flag
        = finish_init mld_init load_data flag
           \<lparr>opt_prefix = root_dir @ ''/newstest2016'' @ (if moses_pretok then ''.tok'' else []) @ ''.clean'',
            opt_languages = [''en'', ''de''],
            opt_tokenization = tokenization, opt_num_symbols = num_symbols,
            opt_shared_vocab = shared_vocab,
            opt_code_files = (case train_data ''code_files'' of Some v \<Rightarrow> v | None \<Rightarrow> None),
            opt_vocab_files = (case train_data ''vocab_files'' of Some v \<Rightarrow> v | None \<Rightarrow> None),
            opt_insert_start = insert_start, opt_insert_end = insert_end,
            opt_mark_language = mark_language,
            opt_tokenizers = (case train_data ''tokenizers'' of Some v \<Rightarrow> v | None \<Rightarrow> None),
            opt_load_data = False\<rparr>)"
proof (intro conjI impI)
  show "corpus_prefix root_dir name moses_pretok =
     root_dir @ ''/'' @ name @ (if moses_pretok then ''.tok'' else []) @ ''.clean''"
    by (simp add: corpus_prefix_def)
  show "opt_prefix (train_options root_dir tokenization num_symbols shared_vocab code_files vocab_files
          insert_start insert_end mark_language tokenizers moses_pretok)
       = root_dir @ ''/train'' @ (if moses_pretok then ''.tok'' else []) @ ''.clean''"
    by (simp add: train_options_def corpus_prefix_def)
  show "WMT16_de_en_init mld_init load_data root_dir ''train'' tokenization num_symbols shared_vocab
       code_files vocab_files insert_start insert_end mark_language tokenizers moses_pretok flag
     = finish_init mld_init load_data flag
         (train_options root_dir tokenization num_symbols shared_vocab code_files vocab_files
            insert_start insert_end mark_language tokenizers moses_pretok)"
    by (rule WMT16_train)
next
  assume a: "mld_init (train_options root_dir tokenization num_symbols shared_vocab code_files vocab_files
          insert_start insert_end mark_language tokenizers moses_pretok) = Inr train_data"
  have d: "''dev'' \<noteq> ''train''" and t: "''test'' \<noteq> ''train''" by simp_all
  show "WMT16_de_en_init mld_init load_data root_dir ''dev'' tokenization num_symbols shared_vocab
          code_files vocab_files insert_start insert_end mark_language tokenizers moses_pretok flag
        = finish_init mld_init load_data flag
           \<lparr>opt_prefix = root_dir @ ''/newstest2014'' @ (if moses_pretok then ''.tok'' else []) @ ''.clean'',
            opt_languages = [''en'', ''de''],
            opt_tokenization = tokenization, opt_num_symbols = num_symbols,
            opt_shared_vocab = shared_vocab,
            opt_code_files = (case train_data ''code_files'' of Some v \<Rightarrow> v | None \<Rightarrow> None),
            opt_vocab_files = (case train_data ''vocab_files'' of Some v \<Rightarrow> v | None \<Rightarrow> None),
            opt_insert_start = insert_start, opt_insert_end = insert_end,
            opt_mark_language = mark_language,
            opt_tokenizers = (case train_data ''tokenizers'' of Some v \<Rightarrow> v | None \<Rightarrow> None),
            opt_load_data = False\<rparr>"
    by (simp add: WMT16_other[where split = "''dev''" and mld_init = mld_init, OF d a]
        corpus_prefix_def train_options_def getattr_none_def)
  show "WMT16_de_en_init mld_init load_data root_dir ''test'' tokenization num_symbols shared_vocab
          code_files vocab_files insert_start insert_end mark_language tokenizers moses_pretok flag
        = finish_init mld_init load_data flag
           \<lparr>opt_prefix = root_dir @ ''/newstest2016'' @ (if moses_pretok then ''.tok'' else []) @ ''.clean'',
            opt_languages = [''en'', ''de''],
            opt_tokenization = tokenization, opt_num_symbols = num_symbols,
            opt_shared_vocab = shared_vocab,
            opt_code_files = (case train_data ''code_files'' of Some v \<Rightarrow> v | None \<Rightarrow> None),
            opt_vocab_files = (case train_data ''vocab_files'' of Some v \<Rightarrow> v | None \<Rightarrow> None),
            opt_insert_start = insert_start, opt_insert_end = insert_end,
            opt_mark_language = mark_language,
            opt_tokenizers = (case train_data ''tokenizers'' of Some v \<Rightarrow> v | None \<Rightarrow> None),
            opt_load_data = False\<rparr>"
    by (simp add: WMT16_other[where split = "''test''" and mld_init = mld_init, OF t a]
        corpus_prefix_def train_options_def getattr_none_def)
qed

lemma example_mld_train:
  "example_mld (train_options ''data'' ''bpe'' ''32000'' ''True'' None None ''[BOS]'' ''[EOS]'' ''False'' None False) =
     Inr [''prefix'' \<mapsto> Some ''data/train.clean'',
          ''tokenizers'' \<mapsto> Some ''tokenizers of data/train.clean'',
          ''code_files'' \<mapsto> Some ''codes of data/train.clean'',
          ''vocab_files'' \<mapsto> Some ''vocab of data/train.clean'']"
  by (simp add: example_mld_def train_options_def corpus_prefix_def)

text \<open>
  The theorem at the root \<open>data\<close> without \<open>moses_pretok\<close> and without tokenizers,
  code files or vocabulary files, with the example constructor: the train dataset
  makes its own from \<open>data/train.clean\<close>, and the datasets of \<open>'dev'\<close> and
  \<open>'test'\<close> have those.
\<close>

theorem WMT16_de_en_split_files_witness:
  "WMT16_de_en_init example_mld Inr ''data'' ''train'' ''bpe'' ''32000'' ''True'' None None
       ''[BOS]'' ''[EOS]'' ''False'' None False True
     = Inr [''prefix'' \<mapsto> Some ''data/train.clean'',
            ''tokenizers'' \<mapsto> Some ''tokenizers of data/train.clean'',
            ''code_files'' \<mapsto> Some ''codes of data/train.clean'',
            ''vocab_files'' \<mapsto> Some ''vocab of data/train.clean'']
   \<and> WMT16_de_en_init example_mld Inr ''data'' ''dev'' ''bpe'' ''32000'' ''True'' None None
       ''[BOS]'' ''[EOS]'' ''False'' None False True
     = Inr [''prefix'' \<mapsto> Some ''data/newstest2014.clean'',
            ''tokenizers'' \<mapsto> Some ''tokenizers of data/train.clean'',
            ''code_files'' \<mapsto> Some ''codes of data/train.clean'',
            ''vocab_files'' \<mapsto> Some ''vocab of data/train.clean'']
   \<and> WMT16_de_en_init example_mld Inr ''data'' ''test'' ''bpe'' ''32000'' ''True'' None None
       ''[BOS]'' ''[EOS]'' ''False'' None False True
     = Inr [''prefix'' \<mapsto> Some ''data/newstest2016.clean'',
            ''tokenizers'' \<mapsto> Some ''tokenizers of data/train.clean'',
            ''code_files'' \<mapsto> Some ''codes of data/train.clean'',
            ''vocab_files'' \<mapsto> Some ''vocab of data/train.clean'']"
proof -
  note t = WMT16_de_en_split_files[where root_dir = "''data''" and moses_pretok = False
      and tokenization = "''bpe''" and num_symbols = "''32000''" and shared_vocab = "''True''"
      and code_files = None and vocab_files = None and insert_start = "''[BOS]''"
      and insert_end = "''[EOS]''" and mark_language = "''False''" and tokenizers = None
      and mld_init = example_mld and load_data = Inr and flag = True
      and train_data = "[''prefix'' \<mapsto> Some ''data/train.clean'',
          ''tokenizers'' \<mapsto> Some ''tokenizers of data/train.clean'',
          ''code_files'' \<mapsto> Some ''codes of data/train.clean'',
          ''vocab_files'' \<mapsto> Some ''vocab of data/train.clean'']"]
  note tr = t[THEN conjunct2, THEN conjunct2, THEN conjunct1]
  note u = t[THEN conjunct2, THEN conjunct2, THEN conjunct2, rule_format, OF example_mld_train]
  have a: "WMT16_de_en_init example_mld Inr ''data'' ''train'' ''bpe'' ''32000'' ''True'' None None
       ''[BOS]'' ''[EOS]'' ''False'' None False True
     = Inr [''prefix'' \<mapsto> Some ''data/train.clean'',
            ''tokenizers'' \<mapsto> Some ''tokenizers of data/train.clean'',
            ''code_files'' \<mapsto> Some ''codes of data/train.clean'',
            ''vocab_files'' \<mapsto> Some ''vocab of data/train.clean'']"
    by (simp add: tr finish_init_def and_then_def example_mld_train)
  have b: "WMT16_de_en_init example_mld Inr ''data'' ''dev'' ''bpe'' ''32000'' ''True'' None None
       ''[BOS]'' ''[EOS]'' ''False'' None False True
     = Inr [''prefix'' \<mapsto> Some ''data/newstest2014.clean'',
            ''tokenizers'' \<mapsto> Some ''tokenizers of data/train.clean'',
            ''code_files'' \<mapsto> Some ''codes of data/train.clean'',
            ''vocab_files'' \<mapsto> Some ''vocab of data/train.clean'']"
    by (simp add: u[THEN conjunct1] finish_init_def and_then_def example_mld_def)
  have c: "WMT16_de_en_init example_mld Inr ''data'' ''test'' ''bpe'' ''32000'' ''True'' None None
       ''[BOS]'' ''[EOS]'' ''False'' None False True
     = Inr [''prefix'' \<mapsto> Some ''data/newstest2016.clean'',
            ''tokenizers'' \<mapsto> Some ''tokenizers of data/train.clean'',
            ''code_files'' \<mapsto> Some ''codes of data/train.clean'',
            ''vocab_files'' \<mapsto> Some ''vocab of data/train.clean'']"
    by (simp add: u[THEN conjunct2] finish_init_def and_then_def example_mld_def)
  show ?thesis using a b c by (intro conjI)
qed

text \<open>
  Claim C9. For a split other than \<open>'train'\<close>, \<open>'dev'\<close> and \<open>'test'\<close> the constructor
  returns no dataset: once the train dataset is built it raises UnboundLocalError at
  the read of \<open>prefix\<close>; when the train dataset cannot be built it raises that error.
\<close>

theorem WMT16_de_en_unknown_split:
  assumes "split \<notin> {''train'', ''dev'', ''test''}"
  shows "(\<forall>train_data.
            mld_init (train_options root_dir tokenization num_symbols shared_vocab code_files
               vocab_files insert_start insert_end mark_language tokenizers moses_pretok) = Inr train_data \<longrightarrow>
            WMT16_de_en_init mld_init load_data root_dir split tokenization num_symbols shared_vocab
              code_files vocab_files insert_start insert_end mark_language tokenizers moses_pretok flag
            = Inl UnboundLocalError)
       \<and> (\<forall>e.
            mld_init (train_options root_dir tokenization num_symbols shared_vocab code_files
               vocab_files insert_start insert_end mark_language tokenizers moses_pretok) = Inl e \<longrightarrow>
            WMT16_de_en_init mld_init load_data root_dir split tokenization num_symbols shared_vocab
              code_files vocab_files insert_start insert_end mark_language tokenizers moses_pretok flag
            = Inl e)
       \<and> (\<forall>dataset.
            WMT16_de_en_init mld_init load_data root_dir split tokenization num_symbols shared_vocab
              code_files vocab_files insert_start insert_end mark_language tokenizers moses_pretok flag
            \<noteq> Inr dataset)"
proof -
  have n: "split \<noteq> ''train''" and nd: "\<not> (split = ''dev'' \<or> split = ''test'')"
    using assms by simp_all
  let ?to = "train_options root_dir tokenization num_symbols shared_vocab code_files
               vocab_files insert_start insert_end mark_language tokenizers moses_pretok"
  let ?w = "WMT16_de_en_init mld_init load_data root_dir split tokenization num_symbols shared_vocab
              code_files vocab_files insert_start insert_end mark_language tokenizers moses_pretok flag"
  have a: "\<forall>train_data. mld_init ?to = Inr train_data \<longrightarrow> ?w = Inl UnboundLocalError"
  proof (intro allI impI)
    fix train_data
    assume "mld_init ?to = Inr train_data"
    from WMT16_other[where mld_init = mld_init, OF n this] nd show "?w = Inl UnboundLocalError" by simp
  qed
  have b: "\<forall>e. mld_init ?to = Inl e \<longrightarrow> ?w = Inl e"
  proof (intro allI impI)
    fix e
    assume "mld_init ?to = Inl e"
    from WMT16_other_fails[where mld_init = mld_init, OF n this] show "?w = Inl e" .
  qed
  have c: "\<forall>dataset. ?w \<noteq> Inr dataset"
  proof (cases "mld_init ?to")
    case (Inl e)
    then show ?thesis using b by simp
  next
    case (Inr td)
    then show ?thesis using a by simp
  qed
  show ?thesis using a b c by blast
qed

text \<open>
  The theorem at \<open>split='valid'\<close>.
\<close>

theorem WMT16_de_en_unknown_split_witness:
  "WMT16_de_en_init example_mld Inr ''data'' ''valid'' ''bpe'' ''32000'' ''True'' None None
       ''[BOS]'' ''[EOS]'' ''False'' None False True
     = Inl UnboundLocalError"
proof -
  have s: "''valid'' \<notin> {''train'', ''dev'', ''test''}" by simp
  note a = example_mld_train
  show ?thesis
    using WMT16_de_en_unknown_split[where mld_init = example_mld, OF s, THEN conjunct1, rule_format, OF a] .
qed

end
